theory Spec2Isabelle
  imports Complex_Main
begin

section \<open>Numbers and vectors\<close>

text \<open>
  JavaScript numbers are read as real numbers: every constant of the program
  (0.33, 0.99, 0.01, ...) is the decimal fraction that is written in the source.
  Where a value that is not a number can reach an arithmetic expression (an omitted
  argument is \<^verbatim>\<open>undefined\<close>), the expression is evaluated over \<open>jsval\<close>, with
  the coercion and the NaN propagation of the language. Rounding and infinities are
  not modelled.
\<close>

datatype jsval = Undefined | NaN | Num real

fun ToNumber :: "jsval \<Rightarrow> jsval" where
  "ToNumber Undefined = NaN"
| "ToNumber NaN = NaN"
| "ToNumber (Num r) = Num r"

fun num_mul :: "jsval \<Rightarrow> jsval \<Rightarrow> jsval" where
  "num_mul (Num a) (Num b) = Num (a * b)"
| "num_mul _ _ = NaN"

fun num_add :: "jsval \<Rightarrow> jsval \<Rightarrow> jsval" where
  "num_add (Num a) (Num b) = Num (a + b)"
| "num_add _ _ = NaN"

definition js_mul :: "jsval \<Rightarrow> jsval \<Rightarrow> jsval" where
  "js_mul a b = num_mul (ToNumber a) (ToNumber b)"

definition js_add :: "jsval \<Rightarrow> jsval \<Rightarrow> jsval" where
  "js_add a b = num_add (ToNumber a) (ToNumber b)"

datatype Vector3 = Vector3 (vx: real) (vy: real) (vz: real)

datatype Euler = Euler (ex: real) (ey: real) (ez: real)

text \<open>\<^verbatim>\<open>Vector3.distanceTo\<close> of the engine: the Euclidean distance.\<close>

definition distanceTo :: "Vector3 \<Rightarrow> Vector3 \<Rightarrow> real" where
  "distanceTo a b =
     (let dx = vx a - vx b; dy = vy a - vy b; dz = vz a - vz b
      in sqrt (dx * dx + dy * dy + dz * dz))"

section \<open>World (world.js)\<close>

text \<open>
  The objects that \<^verbatim>\<open>buildWorld\<close> pushes on the module's arrays. Every push is of a
  freshly created object, so no object occurs twice in an array and the arrays hold
  the objects by value. \<^verbatim>\<open>buildWorld\<close> draws its content at random; the world it
  leaves is a parameter of the model.
\<close>

record Object3D =
  isMesh :: bool
  isPoints :: bool
  position :: Vector3
  rotation :: Euler
  scale :: Vector3

record PointLight =
  lightIntensity :: jsval
  lightPosition :: Vector3

record world_state =
  animatedObjects :: "Object3D list"
  twinklingStars :: "Object3D list"
  pulsatingLights :: "PointLight list"
  anomalyPositions :: "Vector3 list"

definition rotateObject :: "Object3D \<Rightarrow> Object3D" where
  "rotateObject obj =
     (if isMesh obj then
        (let r1 = rotation obj;
             r2 = Euler (ex r1) (ey r1 + 0.0005) (ez r1);
             r3 = Euler (ex r2 + 0.0002) (ey r2) (ez r2)
         in obj\<lparr>rotation := r3\<rparr>)
      else if isPoints obj then
        (let r1 = rotation obj
         in obj\<lparr>rotation := Euler (ex r1) (ey r1 + 0.0001) (ez r1)\<rparr>)
      else obj)"

definition pulseLight :: "real \<Rightarrow> jsval \<Rightarrow> PointLight \<Rightarrow> PointLight" where
  "pulseLight time intensity light =
     light\<lparr>lightIntensity :=
       js_add (js_add (Num 1.5) (js_mul intensity (Num 1.5))) (Num (sin (time * 3) * 0.5))\<rparr>"

definition updateWorld :: "real \<Rightarrow> jsval \<Rightarrow> world_state \<Rightarrow> world_state" where
  "updateWorld time intensity w =
     w\<lparr>animatedObjects := map rotateObject (animatedObjects w),
       pulsatingLights := map (pulseLight time intensity) (pulsatingLights w)\<rparr>"

section \<open>Effects (effects.js)\<close>

text \<open>
  The pass classes of the engine's post-processing module, with the properties and
  uniforms that the source reads and writes. \<^verbatim>\<open>FilmPass\<close> is the class whose
  constructor takes the four arguments the source gives it (noise intensity, scanline
  intensity, scanline count, grayscale); its uniforms are named \<^verbatim>\<open>nIntensity\<close>,
  \<^verbatim>\<open>sIntensity\<close>, \<^verbatim>\<open>sCount\<close> and \<^verbatim>\<open>grayscale\<close>. A \<^verbatim>\<open>ShaderPass\<close> copies the
  uniforms of its shader: \<^verbatim>\<open>amount\<close> (0.005) and \<^verbatim>\<open>angle\<close> (0) for the RGB shift
  shader, \<^verbatim>\<open>offset\<close> (1.0) and \<^verbatim>\<open>darkness\<close> (1.0) for the vignette shader of the
  source. Texture slots and the resolution are left to the engine.
\<close>

record Pass =
  renderToScreen :: bool

record UnrealBloomPass = Pass +
  strength :: real
  radius :: real
  threshold :: real

record RGBShiftPass = Pass +
  amount :: real
  angle :: real

record FilmPass = Pass +
  nIntensity :: real
  sIntensity :: real
  sCount :: real
  grayscale :: bool

record VignettePass = Pass +
  offset :: real
  darkness :: real

datatype pass_obj =
    ORender Pass
  | OBloom UnrealBloomPass
  | ORGBShift RGBShiftPass
  | OFilm FilmPass
  | OVignette VignettePass

text \<open>
  Pass objects are shared between the module's variables and the composer's list, so
  they live in a store: an address is an index into the list of allocated objects.
  A module variable that was never assigned (\<^verbatim>\<open>undefined\<close>) is \<open>None\<close>.
\<close>

type_synonym addr = nat

record effects_state =
  heap :: "pass_obj list"
  bloomPass :: "addr option"
  rgbShiftPass :: "addr option"
  filmPass :: "addr option"
  vignettePass :: "addr option"

record EffectComposer =
  passes :: "addr list"

definition alloc :: "pass_obj \<Rightarrow> pass_obj list \<Rightarrow> addr \<times> pass_obj list" where
  "alloc obj h = (length h, h @ [obj])"

definition addPass :: "addr \<Rightarrow> EffectComposer \<Rightarrow> EffectComposer" where
  "addPass a c = c\<lparr>passes := passes c @ [a]\<rparr>"

text \<open>
  Writing the fields of the object at an address. An address held by a variable
  always holds an object of the class that was assigned to the variable; at any other
  address the store is left as it is.
\<close>

definition updBloom :: "addr \<Rightarrow> (UnrealBloomPass \<Rightarrow> UnrealBloomPass) \<Rightarrow> pass_obj list \<Rightarrow> pass_obj list" where
  "updBloom a f h =
     (if a < length h then (case h ! a of OBloom p \<Rightarrow> h[a := OBloom (f p)] | _ \<Rightarrow> h) else h)"

definition updRGBShift :: "addr \<Rightarrow> (RGBShiftPass \<Rightarrow> RGBShiftPass) \<Rightarrow> pass_obj list \<Rightarrow> pass_obj list" where
  "updRGBShift a f h =
     (if a < length h then (case h ! a of ORGBShift p \<Rightarrow> h[a := ORGBShift (f p)] | _ \<Rightarrow> h) else h)"

definition updFilm :: "addr \<Rightarrow> (FilmPass \<Rightarrow> FilmPass) \<Rightarrow> pass_obj list \<Rightarrow> pass_obj list" where
  "updFilm a f h =
     (if a < length h then (case h ! a of OFilm p \<Rightarrow> h[a := OFilm (f p)] | _ \<Rightarrow> h) else h)"

definition updVignette :: "addr \<Rightarrow> (VignettePass \<Rightarrow> VignettePass) \<Rightarrow> pass_obj list \<Rightarrow> pass_obj list" where
  "updVignette a f h =
     (if a < length h then (case h ! a of OVignette p \<Rightarrow> h[a := OVignette (f p)] | _ \<Rightarrow> h) else h)"

definition setupEffects :: "effects_state \<Rightarrow> EffectComposer \<times> effects_state" where
  "setupEffects s =
     (let (renderScene, h1) = alloc (ORender \<lparr>renderToScreen = False\<rparr>) (heap s);
          (bloom, h2) = alloc (OBloom \<lparr>renderToScreen = False,
                                 strength = 1.5, radius = 0.4, threshold = 0.85\<rparr>) h1;
          h3 = updBloom bloom (\<lambda>p. p\<lparr>threshold := 0.1\<rparr>) h2;
          h4 = updBloom bloom (\<lambda>p. p\<lparr>strength := 1.2\<rparr>) h3;
          h5 = updBloom bloom (\<lambda>p. p\<lparr>radius := 0.5\<rparr>) h4;
          (rgbShift, h6) = alloc (ORGBShift \<lparr>renderToScreen = False,
                                 amount = 0.005, angle = 0\<rparr>) h5;
          h7 = updRGBShift rgbShift (\<lambda>p. p\<lparr>amount := 0.0025\<rparr>) h6;
          (film, h8) = alloc (OFilm \<lparr>renderToScreen = False, nIntensity = 0.35,
                                 sIntensity = 0.5, sCount = 2048, grayscale = False\<rparr>) h7;
          h9 = updFilm film (\<lambda>p. p\<lparr>renderToScreen := False\<rparr>) h8;
          (vignette, h10) = alloc (OVignette \<lparr>renderToScreen = False,
                                 offset = 1.0, darkness = 1.0\<rparr>) h9;
          h11 = updVignette vignette (\<lambda>p. p\<lparr>offset := 0.8\<rparr>) h10;
          h12 = updVignette vignette (\<lambda>p. p\<lparr>darkness := 1.2\<rparr>) h11;
          composer = addPass vignette (addPass film (addPass rgbShift
                       (addPass bloom (addPass renderScene \<lparr>passes = []\<rparr>))));
          h13 = updVignette vignette (\<lambda>p. p\<lparr>renderToScreen := True\<rparr>) h12
      in (composer,
          s\<lparr>heap := h13, bloomPass := Some bloom, rgbShiftPass := Some rgbShift,
            filmPass := Some film, vignettePass := Some vignette\<rparr>))"

definition updateEffects :: "real \<Rightarrow> effects_state \<Rightarrow> effects_state" where
  "updateEffects intensity s =
     (let h1 = (case bloomPass s of
                  None \<Rightarrow> heap s
                | Some a \<Rightarrow> updBloom a (\<lambda>p. p\<lparr>radius := 0.3 + intensity * 0.7\<rparr>)
                             (updBloom a (\<lambda>p. p\<lparr>strength := 0.8 + intensity * 2.0\<rparr>) (heap s)));
          h2 = (case rgbShiftPass s of
                  None \<Rightarrow> h1
                | Some a \<Rightarrow> updRGBShift a (\<lambda>p. p\<lparr>amount := 0.001 + intensity * 0.012\<rparr>) h1);
          h3 = (case filmPass s of
                  None \<Rightarrow> h2
                | Some a \<Rightarrow> updFilm a (\<lambda>p. p\<lparr>sIntensity := 0.3 + intensity * 0.7\<rparr>)
                             (updFilm a (\<lambda>p. p\<lparr>nIntensity := 0.2 + intensity * 0.8\<rparr>) h2));
          h4 = (case vignettePass s of
                  None \<Rightarrow> h3
                | Some a \<Rightarrow> updVignette a (\<lambda>p. p\<lparr>darkness := 1.0 + intensity * 0.8\<rparr>)
                             (updVignette a (\<lambda>p. p\<lparr>offset := 0.9 - intensity * 0.4\<rparr>) h3))
      in s\<lparr>heap := h4\<rparr>)"

text \<open>Reading the object at an address as a pass of a given class.\<close>

definition getBloom :: "pass_obj list \<Rightarrow> addr \<Rightarrow> UnrealBloomPass option" where
  "getBloom h a =
     (if a < length h then (case h ! a of OBloom p \<Rightarrow> Some p | _ \<Rightarrow> None) else None)"

definition getRGBShift :: "pass_obj list \<Rightarrow> addr \<Rightarrow> RGBShiftPass option" where
  "getRGBShift h a =
     (if a < length h then (case h ! a of ORGBShift p \<Rightarrow> Some p | _ \<Rightarrow> None) else None)"

definition getFilm :: "pass_obj list \<Rightarrow> addr \<Rightarrow> FilmPass option" where
  "getFilm h a =
     (if a < length h then (case h ! a of OFilm p \<Rightarrow> Some p | _ \<Rightarrow> None) else None)"

definition getVignette :: "pass_obj list \<Rightarrow> addr \<Rightarrow> VignettePass option" where
  "getVignette h a =
     (if a < length h then (case h ! a of OVignette p \<Rightarrow> Some p | _ \<Rightarrow> None) else None)"

text \<open>Reading the pass a module variable refers to.\<close>

definition theBloom :: "effects_state \<Rightarrow> UnrealBloomPass option" where
  "theBloom s = (case bloomPass s of None \<Rightarrow> None | Some a \<Rightarrow> getBloom (heap s) a)"

definition theRGBShift :: "effects_state \<Rightarrow> RGBShiftPass option" where
  "theRGBShift s = (case rgbShiftPass s of None \<Rightarrow> None | Some a \<Rightarrow> getRGBShift (heap s) a)"

definition theFilm :: "effects_state \<Rightarrow> FilmPass option" where
  "theFilm s = (case filmPass s of None \<Rightarrow> None | Some a \<Rightarrow> getFilm (heap s) a)"

definition theVignette :: "effects_state \<Rightarrow> VignettePass option" where
  "theVignette s = (case vignettePass s of None \<Rightarrow> None | Some a \<Rightarrow> getVignette (heap s) a)"

text \<open>
  The module is set up when each of its four variables refers to an object of the
  store of the class the variable is given in \<^verbatim>\<open>setupEffects\<close> (four different
  objects, then, since the four classes differ).
\<close>

definition effects_ready :: "effects_state \<Rightarrow> bool" where
  "effects_ready s =
     (theBloom s \<noteq> None \<and> theRGBShift s \<noteq> None \<and> theFilm s \<noteq> None \<and> theVignette s \<noteq> None)"

fun pass_renderToScreen :: "pass_obj \<Rightarrow> bool" where
  "pass_renderToScreen (ORender p) = renderToScreen p"
| "pass_renderToScreen (OBloom p) = renderToScreen p"
| "pass_renderToScreen (ORGBShift p) = renderToScreen p"
| "pass_renderToScreen (OFilm p) = renderToScreen p"
| "pass_renderToScreen (OVignette p) = renderToScreen p"

datatype pass_class =
  RenderPass | UnrealBloomPass | RGBShiftShaderPass | FilmPass | VignetteShaderPass

fun class_of :: "pass_obj \<Rightarrow> pass_class" where
  "class_of (ORender p) = RenderPass"
| "class_of (OBloom p) = UnrealBloomPass"
| "class_of (ORGBShift p) = RGBShiftShaderPass"
| "class_of (OFilm p) = FilmPass"
| "class_of (OVignette p) = VignetteShaderPass"

text \<open>
  The seven numbers that \<^verbatim>\<open>updateEffects\<close> writes, read back from the passes of a
  module that is set up.
\<close>

record effect_params =
  bloomStrength :: real
  bloomRadius :: real
  shiftAmount :: real
  grainIntensity :: real
  scanlineIntensity :: real
  vignetteOffset :: real
  vignetteDarkness :: real

definition readParams :: "effects_state \<Rightarrow> effect_params option" where
  "readParams s =
     (case (theBloom s, theRGBShift s, theFilm s, theVignette s) of
        (Some b, Some r, Some f, Some v) \<Rightarrow>
          Some \<lparr>bloomStrength = strength b, bloomRadius = radius b, shiftAmount = amount r,
                grainIntensity = nIntensity f, scanlineIntensity = sIntensity f,
                vignetteOffset = offset v, vignetteDarkness = darkness v\<rparr>
      | _ \<Rightarrow> None)"

section \<open>Audio (audio.js)\<close>

text \<open>
  Modelled from the spec: the engine's \<^verbatim>\<open>Audio\<close> class is not part of the repository.
  An \<^verbatim>\<open>Audio\<close> has a buffer (\<open>None\<close> until one is set), the flag \<^verbatim>\<open>isPlaying\<close>, a
  loop flag, a volume and the offset \<^verbatim>\<open>_progress\<close> at which the next playback starts.
  Every playback is a buffer source node of its own, created by \<^verbatim>\<open>play\<close>:
  \<open>started\<close> counts the nodes this object has created, and a node is named by its
  number in that count. \<open>sounding\<close> lists the playbacks of this object that are
  audible, each by its node and the offset into the buffer at which it was started, so
  that a playback that goes on and one that was begun anew are told apart.
  \<^verbatim>\<open>play\<close> does nothing while the object is playing and otherwise creates a node
  and starts it at \<^verbatim>\<open>_progress\<close>; \<^verbatim>\<open>stop\<close> silences the current playback and
  rewinds \<^verbatim>\<open>_progress\<close> to the beginning; \<^verbatim>\<open>onEnded\<close> is the engine's notice that
  the current playback ran to its end.
\<close>

record Audio =
  buffer :: "nat option"
  isPlaying :: bool
  loop :: bool
  volume :: real
  progress :: real
  started :: nat
  sounding :: "(nat \<times> real) list"

definition newAudio :: Audio where
  "newAudio = \<lparr>buffer = None, isPlaying = False, loop = False, volume = 1,
               progress = 0, started = 0, sounding = []\<rparr>"

definition setBuffer :: "nat \<Rightarrow> Audio \<Rightarrow> Audio" where
  "setBuffer b a = a\<lparr>buffer := Some b\<rparr>"

definition setLoop :: "bool \<Rightarrow> Audio \<Rightarrow> Audio" where
  "setLoop v a = a\<lparr>loop := v\<rparr>"

definition setVolume :: "real \<Rightarrow> Audio \<Rightarrow> Audio" where
  "setVolume v a = a\<lparr>volume := v\<rparr>"

definition play :: "Audio \<Rightarrow> Audio" where
  "play a = (if isPlaying a then a
             else a\<lparr>isPlaying := True, started := Suc (started a),
                    sounding := (started a, progress a) # sounding a\<rparr>)"

definition stop :: "Audio \<Rightarrow> Audio" where
  "stop a = a\<lparr>progress := 0,
              sounding := (if isPlaying a then tl (sounding a) else sounding a),
              isPlaying := False\<rparr>"

definition onEnded :: "Audio \<Rightarrow> Audio" where
  "onEnded a = a\<lparr>sounding := (if isPlaying a then tl (sounding a) else sounding a),
                 isPlaying := False\<rparr>"

text \<open>
  The module's variables; \<open>None\<close> is \<^verbatim>\<open>undefined\<close>, before \<^verbatim>\<open>setupAudio\<close>. The two
  sounds are two objects, each reached through its variable only. The positional
  sources are handed to the scene and never read again; they are left out.
\<close>

record audio_state =
  backgroundMusic :: "Audio option"
  pillSound :: "Audio option"

definition setupAudio :: "audio_state \<Rightarrow> audio_state" where
  "setupAudio s = s\<lparr>backgroundMusic := Some newAudio, pillSound := Some newAudio\<rparr>"

text \<open>The completion callbacks of the two loads, run by the loader with the buffer.\<close>

definition musicLoaded :: "nat \<Rightarrow> audio_state \<Rightarrow> audio_state" where
  "musicLoaded b s =
     (case backgroundMusic s of
        None \<Rightarrow> s
      | Some a \<Rightarrow> s\<lparr>backgroundMusic := Some (play (setVolume 0.5 (setLoop True (setBuffer b a))))\<rparr>)"

definition pillLoaded :: "nat \<Rightarrow> audio_state \<Rightarrow> audio_state" where
  "pillLoaded b s =
     (case pillSound s of
        None \<Rightarrow> s
      | Some a \<Rightarrow> s\<lparr>pillSound := Some (setVolume 0.8 (setBuffer b a))\<rparr>)"

definition pillEnded :: "audio_state \<Rightarrow> audio_state" where
  "pillEnded s =
     (case pillSound s of None \<Rightarrow> s | Some a \<Rightarrow> s\<lparr>pillSound := Some (onEnded a)\<rparr>)"

definition updateAudio :: "real \<Rightarrow> audio_state \<Rightarrow> audio_state" where
  "updateAudio intensity s =
     (case backgroundMusic s of
        None \<Rightarrow> s
      | Some a \<Rightarrow> s\<lparr>backgroundMusic := Some (setVolume (0.3 + intensity * 0.7) a)\<rparr>)"

definition triggerPill :: "audio_state \<Rightarrow> audio_state" where
  "triggerPill s =
     (case pillSound s of
        None \<Rightarrow> s
      | Some a \<Rightarrow>
          if buffer a \<noteq> None then
            (let a1 = (if isPlaying a then stop a else a)
             in s\<lparr>pillSound := Some (play a1)\<rparr>)
          else s)"

section \<open>Driver (main.js)\<close>

record program_state =
  cameraPosition :: Vector3
  world :: world_state
  effects :: effects_state
  audio :: audio_state
  composer :: EffectComposer
  pillIntensity :: real

text \<open>The loop over the anomaly positions, with \<^verbatim>\<open>baseIntensity\<close> as accumulator.\<close>

fun anomalyLoop :: "Vector3 \<Rightarrow> Vector3 list \<Rightarrow> real \<Rightarrow> real" where
  "anomalyLoop cam [] b = b"
| "anomalyLoop cam (pos # ps) b =
     (let dist = distanceTo cam pos
      in anomalyLoop cam ps (if dist < 40 then b + (1 - dist / 40) * 0.33 else b))"

definition baseIntensity :: "Vector3 \<Rightarrow> Vector3 list \<Rightarrow> real" where
  "baseIntensity cam ps = min (anomalyLoop cam ps 0) 1"

definition pillFade :: "real \<Rightarrow> real" where
  "pillFade p =
     (if p > 0 then (let p1 = p * 0.99 in if p1 < 0.01 then 0 else p1) else p)"

text \<open>
  The value of \<^verbatim>\<open>totalIntensity\<close> in a frame that starts with the pill boost \<open>p\<close>:
  the boost is faded first, then added to the base intensity.
\<close>

definition totalIntensity :: "Vector3 \<Rightarrow> Vector3 list \<Rightarrow> real \<Rightarrow> real" where
  "totalIntensity cam ps p = min 1 (baseIntensity cam ps + pillFade p)"

text \<open>
  One frame. The camera position that the controls leave is an input of the frame, as
  is the elapsed time; rendering and the request for the next frame change nothing
  that the program reads. \<^verbatim>\<open>updateWorld\<close> is called with one argument, so its second
  parameter is \<^verbatim>\<open>undefined\<close>.
\<close>

definition animate :: "real \<Rightarrow> Vector3 \<Rightarrow> program_state \<Rightarrow> program_state" where
  "animate elapsedTime cam s =
     (let w = updateWorld elapsedTime Undefined (world s);
          total = totalIntensity cam (anomalyPositions w) (pillIntensity s)
      in s\<lparr>cameraPosition := cam,
           world := w,
           pillIntensity := pillFade (pillIntensity s),
           effects := updateEffects total (effects s),
           audio := updateAudio total (audio s)\<rparr>)"

definition keydown :: "string \<Rightarrow> program_state \<Rightarrow> program_state" where
  "keydown code s =
     (if code = ''KeyE'' then s\<lparr>audio := triggerPill (audio s), pillIntensity := 1.0\<rparr> else s)"

text \<open>
  The program when its set-up statements have run, before the first call of
  \<^verbatim>\<open>animate\<close>. The world that \<^verbatim>\<open>buildWorld\<close> built is a parameter.
\<close>

definition effectsUnset :: effects_state where
  "effectsUnset = \<lparr>heap = [], bloomPass = None, rgbShiftPass = None,
                   filmPass = None, vignettePass = None\<rparr>"

definition audioUnset :: audio_state where
  "audioUnset = \<lparr>backgroundMusic = None, pillSound = None\<rparr>"

definition startup :: "world_state \<Rightarrow> program_state" where
  "startup w =
     (let a = setupAudio audioUnset;
          (c, fx) = setupEffects effectsUnset
      in \<lparr>cameraPosition = Vector3 0 10 20, world = w, effects = fx, audio = a,
          composer = c, pillIntensity = 0.0\<rparr>)"

text \<open>
  A small world of the kind \<^verbatim>\<open>buildWorld\<close> leaves: the galaxy mesh, the star
  field, one anomaly light and two anomaly positions, the first at distance 20 from the
  camera's starting point.
\<close>

definition smallWorld :: world_state where
  "smallWorld =
     \<lparr>animatedObjects =
        [\<lparr>isMesh = True, isPoints = False, position = Vector3 400 200 (- 600),
          rotation = Euler 0.5 0.2 0, scale = Vector3 1 1 1\<rparr>,
         \<lparr>isMesh = False, isPoints = True, position = Vector3 0 0 0,
          rotation = Euler 0 0 0, scale = Vector3 1 1 1\<rparr>],
      twinklingStars = [],
      pulsatingLights = [\<lparr>lightIntensity = Num 2, lightPosition = Vector3 0 10 40\<rparr>],
      anomalyPositions = [Vector3 0 10 40, Vector3 0 10 100]\<rparr>"

text \<open>
  What the host delivers to the program, one event at a time: a frame, a key press, the
  completion of a load, the end of the pill sound's playback.
\<close>

datatype event =
    Frame real Vector3
  | KeyDown string
  | MusicLoaded nat
  | PillLoaded nat
  | PillEnded

fun step :: "program_state \<Rightarrow> event \<Rightarrow> program_state" where
  "step s (Frame t cam) = animate t cam s"
| "step s (KeyDown code) = keydown code s"
| "step s (MusicLoaded b) = s\<lparr>audio := musicLoaded b (audio s)\<rparr>"
| "step s (PillLoaded b) = s\<lparr>audio := pillLoaded b (audio s)\<rparr>"
| "step s PillEnded = s\<lparr>audio := pillEnded (audio s)\<rparr>"

definition run :: "program_state \<Rightarrow> event list \<Rightarrow> program_state" where
  "run s es = foldl step s es"

text \<open>
  The pill sound of a running program: it exists, its next playback starts at the
  beginning, and it has one audible playback, the node it created last, started at the
  beginning, exactly when it is marked as playing, and none otherwise.
\<close>

definition pillSound_ok :: "audio_state \<Rightarrow> bool" where
  "pillSound_ok s =
     (case pillSound s of
        None \<Rightarrow> False
      | Some a \<Rightarrow>
          progress a = 0
          \<and> (if isPlaying a then 0 < started a \<and> sounding a = [(started a - 1, 0)]
               else sounding a = []))"

section \<open>The driver's intensity\<close>

lemma anomalyLoop_sum:
  "anomalyLoop cam ps b =
     b + sum_list (map (\<lambda>pos. (1 - distanceTo cam pos / 40) * 0.33)
                       (filter (\<lambda>pos. distanceTo cam pos < 40) ps))"
  by (induction ps arbitrary: b) (simp_all add: Let_def)

lemma anomalyLoop_far:
  "40 \<le> distanceTo cam pos \<Longrightarrow>
     anomalyLoop cam (ps @ pos # qs) b = anomalyLoop cam (ps @ qs) b"
  by (simp add: anomalyLoop_sum)

lemma distanceTo_nonneg: "0 \<le> distanceTo a b"
  by (simp add: distanceTo_def Let_def)

lemma anomalyLoop_nonneg: "0 \<le> b \<Longrightarrow> 0 \<le> anomalyLoop cam ps b"
proof (induction ps arbitrary: b)
  case Nil
  then show ?case by simp
next
  case (Cons pos ps)
  have "0 \<le> (1 - distanceTo cam pos / 40) * 0.33" if "distanceTo cam pos < 40"
    using that by simp
  with Cons show ?case by (simp add: Let_def)
qed

lemma baseIntensity_range: "0 \<le> baseIntensity cam ps \<and> baseIntensity cam ps \<le> 1"
  using anomalyLoop_nonneg [of 0 cam ps] by (simp add: baseIntensity_def)

lemma baseIntensity_single:
  "baseIntensity cam [pos] =
     (if distanceTo cam pos < 40 then (1 - distanceTo cam pos / 40) * 0.33 else 0)"
proof -
  have "(1 - distanceTo cam pos / 40) * 0.33 \<le> 1"
    using distanceTo_nonneg [of cam pos]
    by (simp add: mult_le_one)
  then show ?thesis
    by (simp add: baseIntensity_def Let_def)
qed

lemma distanceTo_axis: "0 \<le> d \<Longrightarrow> distanceTo (Vector3 0 0 0) (Vector3 0 0 d) = d"
  by (simp add: distanceTo_def)

text \<open>
  C1. On every frame the base intensity is the sum, over the anomaly positions at a
  distance below 40 from the camera, of (1 - distance/40) * 0.33, cut off at 1. An
  anomaly at distance 40 or more adds nothing, wherever it stands in the list; a single
  anomaly gives 0.33 at distance 0, 0.165 at distance 20 and 0 from distance 40 on.
\<close>

theorem baseIntensity_is_clamped_sum:
  "baseIntensity cam ps =
     min (sum_list (map (\<lambda>pos. (1 - distanceTo cam pos / 40) * 0.33)
                        (filter (\<lambda>pos. distanceTo cam pos < 40) ps))) 1
   \<and> (40 \<le> distanceTo cam far \<longrightarrow>
        baseIntensity cam (ps @ far # qs) = baseIntensity cam (ps @ qs))
   \<and> (distanceTo cam p0 = 0 \<longrightarrow> baseIntensity cam [p0] = 0.33)
   \<and> (distanceTo cam p20 = 20 \<longrightarrow> baseIntensity cam [p20] = 0.165)
   \<and> (40 \<le> distanceTo cam p40 \<longrightarrow> baseIntensity cam [p40] = 0)"
proof -
  have "baseIntensity cam ps =
     min (sum_list (map (\<lambda>pos. (1 - distanceTo cam pos / 40) * 0.33)
                        (filter (\<lambda>pos. distanceTo cam pos < 40) ps))) 1"
    by (simp add: baseIntensity_def anomalyLoop_sum)
  moreover have "40 \<le> distanceTo cam far \<longrightarrow>
        baseIntensity cam (ps @ far # qs) = baseIntensity cam (ps @ qs)"
    by (simp add: baseIntensity_def anomalyLoop_far)
  moreover have "distanceTo cam p0 = 0 \<longrightarrow> baseIntensity cam [p0] = 0.33"
    by (simp add: baseIntensity_single)
  moreover have "distanceTo cam p20 = 20 \<longrightarrow> baseIntensity cam [p20] = 0.165"
    by (simp add: baseIntensity_single)
  moreover have "40 \<le> distanceTo cam p40 \<longrightarrow> baseIntensity cam [p40] = 0"
    by (simp add: baseIntensity_single)
  ultimately show ?thesis by blast
qed

theorem baseIntensity_is_clamped_sum_witness:
  "baseIntensity (Vector3 0 0 0) [Vector3 0 0 10, Vector3 0 0 50, Vector3 0 0 30]
     = baseIntensity (Vector3 0 0 0) [Vector3 0 0 10, Vector3 0 0 30]
   \<and> baseIntensity (Vector3 0 0 0) [Vector3 0 0 0] = 0.33
   \<and> baseIntensity (Vector3 0 0 0) [Vector3 0 0 20] = 0.165
   \<and> baseIntensity (Vector3 0 0 0) [Vector3 0 0 40] = 0"
  using baseIntensity_is_clamped_sum
    [of "Vector3 0 0 0" "[Vector3 0 0 10]" "Vector3 0 0 50" "[Vector3 0 0 30]"
        "Vector3 0 0 0" "Vector3 0 0 20" "Vector3 0 0 40"]
  by (simp add: distanceTo_axis)

section \<open>The total intensity\<close>

lemma pillFade_range: "0 \<le> p \<Longrightarrow> 0 \<le> pillFade p \<and> pillFade p \<le> p"
  by (simp add: pillFade_def Let_def)

lemma totalIntensity_range:
  "0 \<le> p \<Longrightarrow> 0 \<le> totalIntensity cam ps p \<and> totalIntensity cam ps p \<le> 1"
  using baseIntensity_range [of cam ps] pillFade_range [of p]
  by (simp add: totalIntensity_def)

lemma updateWorld_anomalyPositions:
  "anomalyPositions (updateWorld time intensity w) = anomalyPositions w"
  by (simp add: updateWorld_def)

lemma animate_forwards:
  "effects (animate t cam s) =
     updateEffects (totalIntensity cam (anomalyPositions (world s)) (pillIntensity s)) (effects s)
   \<and> audio (animate t cam s) =
     updateAudio (totalIntensity cam (anomalyPositions (world s)) (pillIntensity s)) (audio s)"
  by (simp add: animate_def Let_def updateWorld_anomalyPositions)

text \<open>
  C2. On every frame, whatever the camera position and the anomaly positions are, and
  for every pill boost that is not negative, the total intensity lies between 0 and 1,
  and it is this value that the frame hands to the effects update and to the audio
  update.
\<close>

theorem totalIntensity_in_unit_interval:
  assumes "0 \<le> pillIntensity s"
  shows "0 \<le> totalIntensity cam (anomalyPositions (world s)) (pillIntensity s)
    \<and> totalIntensity cam (anomalyPositions (world s)) (pillIntensity s) \<le> 1
    \<and> effects (animate t cam s) =
        updateEffects (totalIntensity cam (anomalyPositions (world s)) (pillIntensity s))
          (effects s)
    \<and> audio (animate t cam s) =
        updateAudio (totalIntensity cam (anomalyPositions (world s)) (pillIntensity s))
          (audio s)"
  using totalIntensity_range [OF assms] animate_forwards by blast

theorem totalIntensity_in_unit_interval_witness:
  "0 \<le> pillIntensity (keydown ''KeyE'' (startup smallWorld))
   \<and> 0 \<le> totalIntensity (Vector3 0 10 20)
            (anomalyPositions (world (keydown ''KeyE'' (startup smallWorld))))
            (pillIntensity (keydown ''KeyE'' (startup smallWorld)))
   \<and> totalIntensity (Vector3 0 10 20)
            (anomalyPositions (world (keydown ''KeyE'' (startup smallWorld))))
            (pillIntensity (keydown ''KeyE'' (startup smallWorld))) \<le> 1"
proof -
  have h: "0 \<le> pillIntensity (keydown ''KeyE'' (startup smallWorld))"
    by (simp add: keydown_def)
  show ?thesis
    using h totalIntensity_in_unit_interval [OF h, of "Vector3 0 10 20" 0] by blast
qed

section \<open>The fading of the pill boost\<close>

lemma mult_bounds:
  fixes a b :: real
  assumes "0 \<le> l1" "l1 \<le> a \<and> a \<le> u1" "0 \<le> l2" "l2 \<le> b \<and> b \<le> u2"
    and "l \<le> l1 * l2" "u1 * u2 \<le> u"
  shows "l \<le> a * b \<and> a * b \<le> u"
proof -
  have "l1 * l2 \<le> a * b" using assms by (intro mult_mono) auto
  moreover have "a * b \<le> u1 * u2" using assms by (intro mult_mono) auto
  ultimately show ?thesis using assms by linarith
qed

lemma fade_powers:
  fixes x :: real
  assumes x: "x = 0.99"
  shows "0.01 < x ^ 458 \<and> x ^ 459 < 0.01"
proof -
  have b1: "0.99 \<le> x \<and> x \<le> 0.99" unfolding x by simp
  have e459: "x ^ 459 = x ^ 458 * x" using power_Suc2 [of x 458] by simp
  have b2: "0.9801 \<le> x ^ 2 \<and> x ^ 2 \<le> 0.9801"
    unfolding x by (simp add: power2_eq_square)
  have b4: "0.96059601 \<le> x ^ 4 \<and> x ^ 4 \<le> 0.96059601"
    using mult_bounds [OF _ b2 _ b2, of "0.96059601" "0.96059601"] by simp
  have b8: "0.922744694427 \<le> x ^ 8 \<and> x ^ 8 \<le> 0.922744694428"
    using mult_bounds [OF _ b4 _ b4, of "0.922744694427" "0.922744694428"] by simp
  have b16: "0.851457771093 \<le> x ^ 16 \<and> x ^ 16 \<le> 0.851457771096"
    using mult_bounds [OF _ b8 _ b8, of "0.851457771093" "0.851457771096"] by simp
  have b32: "0.724980335954 \<le> x ^ 32 \<and> x ^ 32 \<le> 0.72498033596"
    using mult_bounds [OF _ b16 _ b16, of "0.724980335954" "0.72498033596"] by simp
  have b64: "0.525596487519 \<le> x ^ 64 \<and> x ^ 64 \<le> 0.525596487529"
    using mult_bounds [OF _ b32 _ b32, of "0.525596487519" "0.525596487529"] by simp
  have b128: "0.276251667692 \<le> x ^ 128 \<and> x ^ 128 \<le> 0.276251667703"
    using mult_bounds [OF _ b64 _ b64, of "0.276251667692" "0.276251667703"] by simp
  have b256: "0.076314983902 \<le> x ^ 256 \<and> x ^ 256 \<le> 0.076314983909"
    using mult_bounds [OF _ b128 _ b128, of "0.076314983902" "0.076314983909"] by simp
  have c384: "0.021082141572 \<le> x ^ 384 \<and> x ^ 384 \<le> 0.021082141576"
    using mult_bounds [OF _ b256 _ b128, of "0.021082141572" "0.021082141576"] by simp
  have c448: "0.011080699559 \<le> x ^ 448 \<and> x ^ 448 \<le> 0.011080699562"
    using mult_bounds [OF _ c384 _ b64, of "0.011080699559" "0.011080699562"] by simp
  have c456: "0.010224656728 \<le> x ^ 456 \<and> x ^ 456 \<le> 0.010224656732"
    using mult_bounds [OF _ c448 _ b8, of "0.010224656728" "0.010224656732"] by simp
  have c458: "0.010021186059 \<le> x ^ 458 \<and> x ^ 458 \<le> 0.010021186064"
    using mult_bounds [OF _ c456 _ b2, of "0.010021186059" "0.010021186064"] by simp
  have c459: "0.009920974198 \<le> x ^ 459 \<and> x ^ 459 \<le> 0.009920974204"
    unfolding e459
    using mult_bounds [OF _ c458 _ b1, of "0.009920974198" "0.009920974204"] by simp
  from c458 c459 show ?thesis by simp
qed
lemma pow_458: "(0.01::real) < 0.99 ^ 458"
  using fade_powers [OF refl] by (rule conjunct1)

lemma pow_459: "(0.99::real) ^ 459 < 0.01"
  using fade_powers [OF refl] by (rule conjunct2)

lemma ceiling_fade: "\<lceil>ln 0.01 / ln (0.99::real)\<rceil> = 459"
proof -
  have neg: "ln (0.99::real) < 0" by simp
  have "ln (0.01::real) < ln (0.99 ^ 458)"
    using pow_458 by (subst ln_less_cancel_iff) simp_all
  then have lo: "ln (0.01::real) < 458 * ln 0.99"
    by (simp only: ln_realpow [of "0.99::real"] of_nat_numeral) 
  have "ln ((0.99::real) ^ 459) < ln 0.01"
    using pow_459 by (subst ln_less_cancel_iff) simp_all
  then have hi: "459 * ln (0.99::real) < ln 0.01"
    by (simp only: ln_realpow [of "0.99::real"] of_nat_numeral)
  have "458 < ln 0.01 / ln (0.99::real)"
    using lo neg by (simp add: less_divide_eq)
  moreover have "ln 0.01 / ln (0.99::real) < 459"
    using hi neg by (simp add: divide_less_eq)
  ultimately show ?thesis
    by (intro ceiling_unique) simp_all
qed

lemma pillFade_keep: "0 < p \<Longrightarrow> 0.01 \<le> p * 0.99 \<Longrightarrow> pillFade p = p * 0.99"
  by (simp add: pillFade_def Let_def)

lemma pillFade_snap: "0 < p \<Longrightarrow> p * 0.99 < 0.01 \<Longrightarrow> pillFade p = 0"
  by (simp add: pillFade_def Let_def)

lemma pillFade_zero: "pillFade 0 = 0"
  by (simp add: pillFade_def)

lemma fade_iter_early: "n \<le> 458 \<Longrightarrow> (pillFade ^^ n) 1 = 0.99 ^ n"
proof (induction n)
  case 0
  show ?case by simp
next
  case (Suc n)
  have "(0.99::real) ^ 458 \<le> 0.99 ^ Suc n"
    using Suc.prems by (intro power_decreasing) simp_all
  with pow_458 have "(0.01::real) < 0.99 ^ Suc n"
    by (rule less_le_trans)
  then have big: "(0.01::real) \<le> 0.99 ^ n * 0.99"
    by (simp add: mult.commute)
  have pos: "(0::real) < 0.99 ^ n" by simp
  have "(pillFade ^^ Suc n) 1 = pillFade (0.99 ^ n)"
    using Suc by simp
  also have "\<dots> = 0.99 ^ n * 0.99"
    using pos big by (rule pillFade_keep)
  finally show ?case by (simp add: mult.commute)
qed

lemma fade_iter_above: "n \<le> 458 \<Longrightarrow> 0.01 < (pillFade ^^ n) 1"
proof -
  assume n: "n \<le> 458"
  have "(0.99::real) ^ 458 \<le> 0.99 ^ n"
    using n by (intro power_decreasing) simp_all
  with pow_458 have "(0.01::real) < 0.99 ^ n"
    by (rule less_le_trans)
  then show ?thesis
    by (simp only: fade_iter_early [OF n])
qed

lemma fade_iter_459: "(pillFade ^^ Suc 458) 1 = 0"
proof -
  have n: "Suc 458 = (459::nat)" by simp
  have e: "(0.99::real) ^ 458 * 0.99 = 0.99 ^ 459"
    using power_Suc2 [of "0.99::real" 458, symmetric] by (simp only: n)
  have small: "(0.99::real) ^ 458 * 0.99 < 0.01"
    using pow_459 by (simp only: e)
  have pos: "(0::real) < 0.99 ^ 458"
    by (rule zero_less_power) simp
  have "(pillFade ^^ Suc 458) 1 = pillFade ((pillFade ^^ 458) 1)"
    by (simp only: funpow.simps o_apply)
  also have "\<dots> = pillFade (0.99 ^ 458)"
    by (simp only: fade_iter_early [OF order_refl])
  also have "\<dots> = 0"
    using pos small by (rule pillFade_snap)
  finally show ?thesis .
qed

lemma fade_iter_stays: "(pillFade ^^ m) p = 0 \<Longrightarrow> (pillFade ^^ (m + k)) p = 0"
  by (induction k) (simp_all add: pillFade_zero)

lemma fade_iter_late: "459 \<le> n \<Longrightarrow> (pillFade ^^ n) 1 = 0"
proof -
  assume "459 \<le> n"
  then have "n = Suc 458 + (n - 459)" by simp
  then show ?thesis
    using fade_iter_stays [OF fade_iter_459, of "n - 459"] by (simp only:)
qed

lemma run_frames_pill:
  "(\<forall>e \<in> set es. \<exists>t cam. e = Frame t cam) \<Longrightarrow>
     pillIntensity (run s es) = (pillFade ^^ length es) (pillIntensity s)"
proof (induction es arbitrary: s)
  case Nil
  show ?case by (simp add: run_def)
next
  case (Cons e es)
  then obtain t cam where e: "e = Frame t cam" by auto
  have "pillIntensity (run s (e # es)) = pillIntensity (run (animate t cam s) es)"
    by (simp add: run_def e)
  also have "\<dots> = (pillFade ^^ length es) (pillIntensity (animate t cam s))"
    using Cons by simp
  also have "pillIntensity (animate t cam s) = pillFade (pillIntensity s)"
    by (simp add: animate_def Let_def)
  finally show ?case by (simp add: funpow_swap1)
qed

lemma keydown_pill: "pillIntensity (keydown ''KeyE'' s) = 1"
  by (simp add: keydown_def)

text \<open>
  C3. A frame multiplies a positive boost by 0.99 and sets it to 0 when the product is
  below 0.01; a boost of 0 stays 0. Starting from 1.0, the boost after n frames is
  0.99 to the power n and above 0.01 for every n up to 458, and it is 0 after 459
  frames and after every later frame; 459 is the ceiling of ln 0.01 / ln 0.99. A run
  of frames applies the update once per frame.
\<close>

theorem pillFade_reaches_zero_after_459:
  "(\<forall>n\<le>458. (pillFade ^^ n) 1 = 0.99 ^ n \<and> 0.01 < (pillFade ^^ n) 1)
   \<and> (\<forall>n\<ge>459. (pillFade ^^ n) 1 = 0)
   \<and> \<lceil>ln 0.01 / ln (0.99::real)\<rceil> = 459
   \<and> pillFade 0 = 0
   \<and> (0 < p \<and> 0.01 \<le> p * 0.99 \<longrightarrow> pillFade p = p * 0.99)
   \<and> (0 < p \<and> p * 0.99 < 0.01 \<longrightarrow> pillFade p = 0)
   \<and> ((\<forall>e \<in> set es. \<exists>t cam. e = Frame t cam) \<longrightarrow>
        pillIntensity (run s es) = (pillFade ^^ length es) (pillIntensity s))"
  using fade_iter_early fade_iter_above fade_iter_late ceiling_fade pillFade_zero
    pillFade_keep [of p] pillFade_snap [of p] run_frames_pill [of es s]
  by blast

theorem pillFade_reaches_zero_after_459_witness:
  "0.01 < (pillFade ^^ 458) 1 \<and> (pillFade ^^ 459) 1 = 0 \<and> (pillFade ^^ 460) 1 = 0
   \<and> pillFade 1 = 0.99 \<and> pillFade 0.0101 = 0
   \<and> pillIntensity (run (keydown ''KeyE'' (startup smallWorld))
         [Frame 0 (Vector3 0 10 20), Frame 1 (Vector3 0 10 21)]) = (pillFade ^^ 2) 1"
proof -
  note T = pillFade_reaches_zero_after_459
    [of 1 "[Frame 0 (Vector3 0 10 20), Frame 1 (Vector3 0 10 21)]"
        "keydown ''KeyE'' (startup smallWorld)"]
  note U = pillFade_reaches_zero_after_459 [of "0.0101" "[]" "startup smallWorld"]
  have a: "0.01 < (pillFade ^^ 458) 1" using T by blast
  have "(459::nat) \<le> 459" "(459::nat) \<le> 460" by simp_all
  with T have b: "(pillFade ^^ 459) 1 = 0" "(pillFade ^^ 460) 1 = 0" by blast+
  have c: "pillFade 1 = 0.99" using T by simp
  have d: "pillFade 0.0101 = 0" using U by simp
  have "\<forall>e \<in> set [Frame 0 (Vector3 0 10 20), Frame 1 (Vector3 0 10 21)]. \<exists>t cam. e = Frame t cam"
    by simp
  with T have "pillIntensity (run (keydown ''KeyE'' (startup smallWorld))
         [Frame 0 (Vector3 0 10 20), Frame 1 (Vector3 0 10 21)])
      = (pillFade ^^ length [Frame 0 (Vector3 0 10 20), Frame 1 (Vector3 0 10 21)])
          (pillIntensity (keydown ''KeyE'' (startup smallWorld)))"
    by blast
  then have e: "pillIntensity (run (keydown ''KeyE'' (startup smallWorld))
         [Frame 0 (Vector3 0 10 20), Frame 1 (Vector3 0 10 21)]) = (pillFade ^^ 2) 1"
    by (simp add: keydown_pill numeral_2_eq_2)
  from a b c d e show ?thesis by blast
qed


section \<open>The pill boost under frames and key presses\<close>

lemma startup_pill: "pillIntensity (startup w) = 0"
  by (simp add: startup_def Let_def split: prod.splits)

lemma animate_pill: "pillIntensity (animate t cam s) = pillFade (pillIntensity s)"
  by (simp add: animate_def Let_def)

lemma step_pill_range:
  assumes "0 \<le> pillIntensity s \<and> pillIntensity s \<le> 1"
  shows "0 \<le> pillIntensity (step s e) \<and> pillIntensity (step s e) \<le> 1"
proof (cases e)
  case (Frame t cam)
  then show ?thesis
    using assms pillFade_range [of "pillIntensity s"] by (simp add: animate_pill)
next
  case (KeyDown code)
  then show ?thesis using assms by (simp add: keydown_def)
qed (use assms in simp_all)

lemma run_pill_range:
  "0 \<le> pillIntensity s \<and> pillIntensity s \<le> 1 \<Longrightarrow>
     0 \<le> pillIntensity (run s es) \<and> pillIntensity (run s es) \<le> 1"
proof (induction es arbitrary: s)
  case Nil
  then show ?case by (simp add: run_def)
next
  case (Cons e es)
  have "run s (e # es) = run (step s e) es" by (simp add: run_def)
  with Cons.IH [OF step_pill_range [OF Cons.prems]] show ?case by simp
qed

text \<open>
  C10. Whatever frames, key presses and other events follow the start of the program,
  in whatever order, the pill boost stays between 0 and 1. The key E sets it to exactly
  1.0 whatever it was before, another key leaves it as it is, and a frame never raises
  a boost that is not negative, nor takes it below 0.
\<close>

theorem pillIntensity_stays_in_unit_interval:
  "0 \<le> pillIntensity (run (startup w) es) \<and> pillIntensity (run (startup w) es) \<le> 1
   \<and> pillIntensity (keydown ''KeyE'' s) = 1
   \<and> (code \<noteq> ''KeyE'' \<longrightarrow> pillIntensity (keydown code s) = pillIntensity s)
   \<and> (0 \<le> pillIntensity s \<longrightarrow>
        0 \<le> pillIntensity (animate t cam s)
        \<and> pillIntensity (animate t cam s) \<le> pillIntensity s)"
proof -
  have "0 \<le> pillIntensity (run (startup w) es) \<and> pillIntensity (run (startup w) es) \<le> 1"
    by (rule run_pill_range) (simp add: startup_pill)
  moreover have "pillIntensity (keydown ''KeyE'' s) = 1"
    by (simp add: keydown_def)
  moreover have "code \<noteq> ''KeyE'' \<longrightarrow> pillIntensity (keydown code s) = pillIntensity s"
    by (simp add: keydown_def)
  moreover have "0 \<le> pillIntensity s \<longrightarrow>
        0 \<le> pillIntensity (animate t cam s)
        \<and> pillIntensity (animate t cam s) \<le> pillIntensity s"
    using pillFade_range [of "pillIntensity s"] by (simp add: animate_pill)
  ultimately show ?thesis by blast
qed

theorem pillIntensity_stays_in_unit_interval_witness:
  "pillIntensity (keydown ''KeyE'' (keydown ''KeyE'' (startup smallWorld))) = 1
   \<and> pillIntensity (keydown ''KeyW'' (keydown ''KeyE'' (startup smallWorld))) = 1
   \<and> 0 \<le> pillIntensity (animate 0 (Vector3 0 10 20) (keydown ''KeyE'' (startup smallWorld)))
   \<and> pillIntensity (animate 0 (Vector3 0 10 20) (keydown ''KeyE'' (startup smallWorld))) \<le> 1
   \<and> pillIntensity (run (startup smallWorld)
        [KeyDown ''KeyE'', Frame 0 (Vector3 0 10 20), KeyDown ''KeyE'']) \<le> 1"
proof -
  note T = pillIntensity_stays_in_unit_interval
    [of smallWorld "[KeyDown ''KeyE'', Frame 0 (Vector3 0 10 20), KeyDown ''KeyE'']"
        "keydown ''KeyE'' (startup smallWorld)" "''KeyW''" 0 "Vector3 0 10 20"]
  have k: "pillIntensity (keydown ''KeyE'' (keydown ''KeyE'' (startup smallWorld))) = 1"
    using T by blast
  have n: "''KeyW'' \<noteq> ''KeyE''" by simp
  have one: "pillIntensity (keydown ''KeyE'' (startup smallWorld)) = 1"
    using pillIntensity_stays_in_unit_interval [of smallWorld "[]" "startup smallWorld"]
    by blast
  from T n one show ?thesis using k by simp
qed

section \<open>The world update\<close>

lemma rotateObject_keeps:
  "position (rotateObject obj) = position obj \<and> scale (rotateObject obj) = scale obj
   \<and> isMesh (rotateObject obj) = isMesh obj \<and> isPoints (rotateObject obj) = isPoints obj
   \<and> ez (rotation (rotateObject obj)) = ez (rotation obj)
   \<and> Object3D.more (rotateObject obj) = Object3D.more obj"
  by (simp add: rotateObject_def Let_def)

lemma rotateObject_mesh:
  "isMesh obj \<Longrightarrow>
     ey (rotation (rotateObject obj)) = ey (rotation obj) + 0.0005
     \<and> ex (rotation (rotateObject obj)) = ex (rotation obj) + 0.0002"
  by (simp add: rotateObject_def Let_def)

lemma rotateObject_points:
  "\<not> isMesh obj \<Longrightarrow> isPoints obj \<Longrightarrow>
     ey (rotation (rotateObject obj)) = ey (rotation obj) + 0.0001
     \<and> ex (rotation (rotateObject obj)) = ex (rotation obj)"
  by (simp add: rotateObject_def Let_def)

lemma rotateObject_other:
  "\<not> isMesh obj \<Longrightarrow> \<not> isPoints obj \<Longrightarrow> rotateObject obj = obj"
  by (simp add: rotateObject_def)

lemma pulseLight_keeps:
  "lightPosition (pulseLight time intensity l) = lightPosition l
   \<and> PointLight.more (pulseLight time intensity l) = PointLight.more l"
  by (simp add: pulseLight_def)

lemma pulseLight_number:
  "lightIntensity (pulseLight time (Num i) l) = Num (1.5 + i * 1.5 + sin (time * 3) * 0.5)"
  by (simp add: pulseLight_def js_add_def js_mul_def)

lemma pulseLight_undefined:
  "lightIntensity (pulseLight time Undefined l) = NaN"
  by (simp add: pulseLight_def js_add_def js_mul_def)

text \<open>
  C9. A call of the world update leaves the anomaly positions, the list of them and
  the unused star list as they are, and keeps the number and order of the animated
  objects and of the lights. Of an animated object it changes the rotation only: a mesh
  turns by 0.0005 about y and 0.0002 about x, a point cloud by 0.0001 about y, anything
  else stays as it is; position, scale and kind are untouched. Of a light it changes
  the intensity only.
\<close>

theorem updateWorld_writes_rotation_and_light_intensity_only:
  "anomalyPositions (updateWorld time intensity w) = anomalyPositions w
   \<and> twinklingStars (updateWorld time intensity w) = twinklingStars w
   \<and> world_state.more (updateWorld time intensity w) = world_state.more w
   \<and> length (animatedObjects (updateWorld time intensity w)) = length (animatedObjects w)
   \<and> length (pulsatingLights (updateWorld time intensity w)) = length (pulsatingLights w)
   \<and> (\<forall>k < length (animatedObjects w).
        position (animatedObjects (updateWorld time intensity w) ! k)
          = position (animatedObjects w ! k)
        \<and> scale (animatedObjects (updateWorld time intensity w) ! k)
          = scale (animatedObjects w ! k)
        \<and> isMesh (animatedObjects (updateWorld time intensity w) ! k)
          = isMesh (animatedObjects w ! k)
        \<and> isPoints (animatedObjects (updateWorld time intensity w) ! k)
          = isPoints (animatedObjects w ! k)
        \<and> ez (rotation (animatedObjects (updateWorld time intensity w) ! k))
          = ez (rotation (animatedObjects w ! k))
        \<and> (isMesh (animatedObjects w ! k) \<longrightarrow>
             ey (rotation (animatedObjects (updateWorld time intensity w) ! k))
               = ey (rotation (animatedObjects w ! k)) + 0.0005
             \<and> ex (rotation (animatedObjects (updateWorld time intensity w) ! k))
               = ex (rotation (animatedObjects w ! k)) + 0.0002)
        \<and> (\<not> isMesh (animatedObjects w ! k) \<and> isPoints (animatedObjects w ! k) \<longrightarrow>
             ey (rotation (animatedObjects (updateWorld time intensity w) ! k))
               = ey (rotation (animatedObjects w ! k)) + 0.0001
             \<and> ex (rotation (animatedObjects (updateWorld time intensity w) ! k))
               = ex (rotation (animatedObjects w ! k)))
        \<and> (\<not> isMesh (animatedObjects w ! k) \<and> \<not> isPoints (animatedObjects w ! k) \<longrightarrow>
             animatedObjects (updateWorld time intensity w) ! k = animatedObjects w ! k))
   \<and> (\<forall>k < length (pulsatingLights w).
        lightPosition (pulsatingLights (updateWorld time intensity w) ! k)
          = lightPosition (pulsatingLights w ! k))"
proof -
  have objs: "animatedObjects (updateWorld time intensity w)
                = map rotateObject (animatedObjects w)"
    and lights: "pulsatingLights (updateWorld time intensity w)
                = map (pulseLight time intensity) (pulsatingLights w)"
    by (simp_all add: updateWorld_def)
  have "anomalyPositions (updateWorld time intensity w) = anomalyPositions w
   \<and> twinklingStars (updateWorld time intensity w) = twinklingStars w
   \<and> world_state.more (updateWorld time intensity w) = world_state.more w"
    by (simp add: updateWorld_def)
  moreover have "length (animatedObjects (updateWorld time intensity w))
      = length (animatedObjects w)
   \<and> length (pulsatingLights (updateWorld time intensity w)) = length (pulsatingLights w)"
    by (simp add: objs lights)
  moreover have "\<forall>k < length (pulsatingLights w).
        lightPosition (pulsatingLights (updateWorld time intensity w) ! k)
          = lightPosition (pulsatingLights w ! k)"
    by (simp add: lights pulseLight_keeps)
  moreover have "\<forall>k < length (animatedObjects w).
        position (animatedObjects (updateWorld time intensity w) ! k)
          = position (animatedObjects w ! k)
        \<and> scale (animatedObjects (updateWorld time intensity w) ! k)
          = scale (animatedObjects w ! k)
        \<and> isMesh (animatedObjects (updateWorld time intensity w) ! k)
          = isMesh (animatedObjects w ! k)
        \<and> isPoints (animatedObjects (updateWorld time intensity w) ! k)
          = isPoints (animatedObjects w ! k)
        \<and> ez (rotation (animatedObjects (updateWorld time intensity w) ! k))
          = ez (rotation (animatedObjects w ! k))
        \<and> (isMesh (animatedObjects w ! k) \<longrightarrow>
             ey (rotation (animatedObjects (updateWorld time intensity w) ! k))
               = ey (rotation (animatedObjects w ! k)) + 0.0005
             \<and> ex (rotation (animatedObjects (updateWorld time intensity w) ! k))
               = ex (rotation (animatedObjects w ! k)) + 0.0002)
        \<and> (\<not> isMesh (animatedObjects w ! k) \<and> isPoints (animatedObjects w ! k) \<longrightarrow>
             ey (rotation (animatedObjects (updateWorld time intensity w) ! k))
               = ey (rotation (animatedObjects w ! k)) + 0.0001
             \<and> ex (rotation (animatedObjects (updateWorld time intensity w) ! k))
               = ex (rotation (animatedObjects w ! k)))
        \<and> (\<not> isMesh (animatedObjects w ! k) \<and> \<not> isPoints (animatedObjects w ! k) \<longrightarrow>
             animatedObjects (updateWorld time intensity w) ! k = animatedObjects w ! k)"
    using rotateObject_keeps rotateObject_mesh rotateObject_points rotateObject_other
    by (simp add: objs)
  ultimately show ?thesis by blast
qed

theorem updateWorld_writes_rotation_and_light_intensity_only_witness:
  "anomalyPositions (updateWorld 2 (Num 0.5) smallWorld) = [Vector3 0 10 40, Vector3 0 10 100]
   \<and> map position (animatedObjects (updateWorld 2 (Num 0.5) smallWorld))
       = [Vector3 400 200 (- 600), Vector3 0 0 0]
   \<and> map rotation (animatedObjects (updateWorld 2 (Num 0.5) smallWorld))
       = [Euler 0.5002 0.2005 0, Euler 0 0.0001 0]
   \<and> ey (rotation (animatedObjects (updateWorld 2 (Num 0.5) smallWorld) ! 0)) = 0.2005
   \<and> ey (rotation (animatedObjects (updateWorld 2 (Num 0.5) smallWorld) ! 1)) = 0.0001
   \<and> lightPosition (pulsatingLights (updateWorld 2 (Num 0.5) smallWorld) ! 0) = Vector3 0 10 40"
proof -
  note T = updateWorld_writes_rotation_and_light_intensity_only [of 2 "Num 0.5" smallWorld]
  have len: "length (animatedObjects smallWorld) = 2" "length (pulsatingLights smallWorld) = 1"
    by (simp_all add: smallWorld_def)
  have k0: "(0::nat) < length (animatedObjects smallWorld)"
    and k1: "(1::nat) < length (animatedObjects smallWorld)"
    and l0: "(0::nat) < length (pulsatingLights smallWorld)"
    by (simp_all add: len)
  from T have A: "anomalyPositions (updateWorld 2 (Num 0.5) smallWorld)
      = anomalyPositions smallWorld" by blast
  from T l0 have L: "lightPosition (pulsatingLights (updateWorld 2 (Num 0.5) smallWorld) ! 0)
      = lightPosition (pulsatingLights smallWorld ! 0)" by blast
  from T k0 have P0: "position (animatedObjects (updateWorld 2 (Num 0.5) smallWorld) ! 0)
      = position (animatedObjects smallWorld ! 0)" by blast
  from T k1 have P1: "position (animatedObjects (updateWorld 2 (Num 0.5) smallWorld) ! 1)
      = position (animatedObjects smallWorld ! 1)" by blast
  from T have N: "length (animatedObjects (updateWorld 2 (Num 0.5) smallWorld))
      = length (animatedObjects smallWorld)" by blast
  have R: "map rotation (animatedObjects (updateWorld 2 (Num 0.5) smallWorld))
       = [Euler 0.5002 0.2005 0, Euler 0 0.0001 0]"
    by (simp add: updateWorld_def smallWorld_def rotateObject_def Let_def)
  have M: "map position (animatedObjects (updateWorld 2 (Num 0.5) smallWorld))
       = [Vector3 400 200 (- 600), Vector3 0 0 0]"
  proof (rule nth_equalityI)
    show "length (map position (animatedObjects (updateWorld 2 (Num 0.5) smallWorld)))
        = length [Vector3 400 200 (- 600), Vector3 0 0 0]"
      using N len by simp
  next
    fix i assume "i < length (map position (animatedObjects (updateWorld 2 (Num 0.5) smallWorld)))"
    then have "i = 0 \<or> i = 1" using N len by auto
    then show "map position (animatedObjects (updateWorld 2 (Num 0.5) smallWorld)) ! i
        = [Vector3 400 200 (- 600), Vector3 0 0 0] ! i"
      using P0 P1 N len by (auto simp: smallWorld_def)
  qed
  have m0: "isMesh (animatedObjects smallWorld ! 0)"
    and m1: "\<not> isMesh (animatedObjects smallWorld ! 1) \<and> isPoints (animatedObjects smallWorld ! 1)"
    by (simp_all add: smallWorld_def)
  from T k0 m0 have Y0: "ey (rotation (animatedObjects (updateWorld 2 (Num 0.5) smallWorld) ! 0))
      = ey (rotation (animatedObjects smallWorld ! 0)) + 0.0005" by blast
  from T k1 m1 have Y1: "ey (rotation (animatedObjects (updateWorld 2 (Num 0.5) smallWorld) ! 1))
      = ey (rotation (animatedObjects smallWorld ! 1)) + 0.0001" by blast
  from A L M R Y0 Y1 show ?thesis by (simp add: smallWorld_def)
qed

text \<open>
  C5. The world update computes a light's intensity as 1.5 + intensity * 1.5 +
  sin (time * 3) * 0.5, a number whenever its intensity argument is one. The frame of
  the driver calls the update with the elapsed time alone: the intensity argument is
  \<^verbatim>\<open>undefined\<close>, the product is NaN, and so is the intensity of every tracked light
  after every frame of the composed program.
\<close>

theorem animate_sets_every_light_to_NaN:
  "map lightIntensity (pulsatingLights (world (animate t cam s)))
     = replicate (length (pulsatingLights (world s))) NaN"
  by (simp add: animate_def Let_def updateWorld_def pulseLight_undefined map_replicate_const
      comp_def)

lemma updateWorld_light_number:
  "map lightIntensity (pulsatingLights (updateWorld time (Num i) w))
     = replicate (length (pulsatingLights w)) (Num (1.5 + i * 1.5 + sin (time * 3) * 0.5))"
  by (simp add: updateWorld_def pulseLight_number map_replicate_const comp_def)

section \<open>The audio module\<close>

text \<open>
  C7. The audio update sets the volume of the background music to 0.3 + intensity *
  0.7 and changes nothing else of the music object or of the module; without a
  background music object it changes nothing at all.
\<close>

theorem updateAudio_sets_music_volume_only:
  "(\<forall>a. backgroundMusic s = Some a \<longrightarrow>
       (\<exists>a'. backgroundMusic (updateAudio intensity s) = Some a'
          \<and> volume a' = 0.3 + intensity * 0.7
          \<and> buffer a' = buffer a \<and> isPlaying a' = isPlaying a \<and> loop a' = loop a
          \<and> progress a' = progress a \<and> started a' = started a
          \<and> sounding a' = sounding a
          \<and> Audio.more a' = Audio.more a))
   \<and> pillSound (updateAudio intensity s) = pillSound s
   \<and> audio_state.more (updateAudio intensity s) = audio_state.more s
   \<and> (backgroundMusic s = None \<longrightarrow> updateAudio intensity s = s)"
proof (cases "backgroundMusic s")
  case None
  then show ?thesis by (simp add: updateAudio_def)
next
  case (Some a)
  then show ?thesis by (simp add: updateAudio_def setVolume_def)
qed

theorem updateAudio_sets_music_volume_only_witness:
  "(\<exists>a'. backgroundMusic (updateAudio 0.5 (musicLoaded 7 (setupAudio audioUnset))) = Some a'
      \<and> volume a' = 0.65 \<and> buffer a' = Some 7 \<and> isPlaying a' \<and> loop a')
   \<and> updateAudio 0.5 audioUnset = audioUnset"
proof -
  have m: "backgroundMusic (musicLoaded 7 (setupAudio audioUnset))
      = Some \<lparr>buffer = Some 7, isPlaying = True, loop = True, volume = 0.5, progress = 0,
              started = 1, sounding = [(0, 0)]\<rparr>"
    by (simp add: musicLoaded_def setupAudio_def audioUnset_def newAudio_def play_def
        setVolume_def setLoop_def setBuffer_def)
  have n: "backgroundMusic audioUnset = None"
    by (simp add: audioUnset_def)
  from updateAudio_sets_music_volume_only [of "musicLoaded 7 (setupAudio audioUnset)" "0.5"] m
  have "\<exists>a'. backgroundMusic (updateAudio 0.5 (musicLoaded 7 (setupAudio audioUnset))) = Some a'
      \<and> volume a' = 0.3 + 0.5 * 0.7 \<and> buffer a' = Some 7 \<and> isPlaying a' \<and> loop a'"
    by fastforce
  then have one: "\<exists>a'. backgroundMusic (updateAudio 0.5 (musicLoaded 7 (setupAudio audioUnset)))
        = Some a'
      \<and> volume a' = 0.65 \<and> buffer a' = Some 7 \<and> isPlaying a' \<and> loop a'"
    by simp
  from updateAudio_sets_music_volume_only [of audioUnset "0.5"] n
  have two: "updateAudio 0.5 audioUnset = audioUnset"
    by blast
  from one two show ?thesis by blast
qed

lemma pillSound_ok_setup: "pillSound_ok (setupAudio s)"
  by (simp add: pillSound_ok_def setupAudio_def newAudio_def)

lemma pillSound_ok_triggerPill: "pillSound_ok s \<Longrightarrow> pillSound_ok (triggerPill s)"
  by (auto simp: pillSound_ok_def triggerPill_def play_def stop_def Let_def
      split: option.splits)

lemma pillSound_ok_updateAudio: "pillSound_ok s \<Longrightarrow> pillSound_ok (updateAudio i s)"
  by (auto simp: pillSound_ok_def updateAudio_def split: option.splits)

lemma pillSound_ok_musicLoaded: "pillSound_ok s \<Longrightarrow> pillSound_ok (musicLoaded b s)"
  by (auto simp: pillSound_ok_def musicLoaded_def split: option.splits)

lemma pillSound_ok_pillLoaded: "pillSound_ok s \<Longrightarrow> pillSound_ok (pillLoaded b s)"
  by (auto simp: pillSound_ok_def pillLoaded_def setVolume_def setBuffer_def
      split: option.splits)

lemma pillSound_ok_pillEnded: "pillSound_ok s \<Longrightarrow> pillSound_ok (pillEnded s)"
  by (auto simp: pillSound_ok_def pillEnded_def onEnded_def split: option.splits)

lemma pillSound_ok_step: "pillSound_ok (audio s) \<Longrightarrow> pillSound_ok (audio (step s e))"
proof (cases e)
  case (Frame t cam)
  assume "pillSound_ok (audio s)"
  then show ?thesis
    by (simp add: Frame animate_def Let_def pillSound_ok_updateAudio)
next
  case (KeyDown code)
  assume "pillSound_ok (audio s)"
  then show ?thesis
    by (simp add: KeyDown keydown_def pillSound_ok_triggerPill)
qed (simp_all add: pillSound_ok_musicLoaded pillSound_ok_pillLoaded pillSound_ok_pillEnded)

lemma pillSound_ok_run: "pillSound_ok (audio s) \<Longrightarrow> pillSound_ok (audio (run s es))"
proof (induction es arbitrary: s)
  case Nil
  then show ?case by (simp add: run_def)
next
  case (Cons e es)
  have "run s (e # es) = run (step s e) es" by (simp add: run_def)
  with Cons.IH [OF pillSound_ok_step [OF Cons.prems]] show ?case by simp
qed

lemma pillSound_ok_startup: "pillSound_ok (audio (startup w))"
  by (simp add: startup_def Let_def pillSound_ok_setup split: prod.splits)

lemma triggerPill_unloaded:
  "pillSound s = Some a \<Longrightarrow> buffer a = None \<Longrightarrow> triggerPill s = s"
  by (simp add: triggerPill_def)

lemma triggerPill_unset: "pillSound s = None \<Longrightarrow> triggerPill s = s"
  by (simp add: triggerPill_def)

lemma triggerPill_restarts:
  assumes "pillSound_ok s" and "pillSound s = Some a" and "buffer a \<noteq> None"
  shows "\<exists>a'. pillSound (triggerPill s) = Some a' \<and> isPlaying a'
           \<and> sounding a' = [(started a, 0)] \<and> started a' = Suc (started a)
           \<and> set (sounding a') \<inter> set (sounding a) = {}
           \<and> buffer a' = buffer a \<and> volume a' = volume a \<and> loop a' = loop a"
proof (cases "isPlaying a")
  case True
  with assms have "0 < started a" "sounding a = [(started a - 1, 0)]" "progress a = 0"
    by (simp_all add: pillSound_ok_def)
  with True assms(2,3) show ?thesis
    by (simp add: triggerPill_def play_def stop_def Let_def)
next
  case False
  with assms have "sounding a = []" "progress a = 0"
    by (simp_all add: pillSound_ok_def)
  with False assms(2,3) show ?thesis
    by (simp add: triggerPill_def play_def Let_def)
qed

lemma triggerPill_stops:
  assumes "pillSound s = Some a" and "buffer a \<noteq> None" and "isPlaying a"
  shows "pillSound (triggerPill s) = Some (play (stop a))
         \<and> \<not> isPlaying (stop a) \<and> sounding (stop a) = tl (sounding a)
         \<and> progress (stop a) = 0"
  using assms by (simp add: triggerPill_def stop_def Let_def)

lemma triggerPill_music: "backgroundMusic (triggerPill s) = backgroundMusic s"
  by (auto simp: triggerPill_def Let_def split: option.splits)

text \<open>
  C6. After any sequence of events of the running program, key presses among them, the
  pill sound has at most one audible playback. A call of \<^verbatim>\<open>triggerPill\<close> in such a
  state, when the buffer of the pill sound is loaded, leaves the sound playing with
  exactly one audible playback: a node created by this call, started at the beginning
  of the buffer, and none of the playbacks that were audible before the call, so a
  sound that was playing has been stopped and begun anew. In any state in which the
  sound is playing and loaded, the call stops it, which silences the current playback
  and rewinds, and then plays it. When the buffer is not loaded, or there is no pill
  sound, the call changes nothing. The background music is never touched.
\<close>

theorem triggerPill_restarts_without_overlap:
  "(\<exists>a. pillSound (audio (run (startup w) es)) = Some a \<and> length (sounding a) \<le> 1
      \<and> (buffer a \<noteq> None \<longrightarrow>
           (\<exists>a'. pillSound (triggerPill (audio (run (startup w) es))) = Some a'
              \<and> isPlaying a' \<and> sounding a' = [(started a, 0)]
              \<and> started a' = Suc (started a)
              \<and> set (sounding a') \<inter> set (sounding a) = {}
              \<and> buffer a' = buffer a))
      \<and> (buffer a = None \<longrightarrow>
           triggerPill (audio (run (startup w) es)) = audio (run (startup w) es)))
   \<and> (\<forall>a. pillSound s = Some a \<and> buffer a \<noteq> None \<and> isPlaying a \<longrightarrow>
         pillSound (triggerPill s) = Some (play (stop a))
         \<and> \<not> isPlaying (stop a) \<and> sounding (stop a) = tl (sounding a)
         \<and> progress (stop a) = 0)
   \<and> (\<forall>a. pillSound s = Some a \<and> buffer a = None \<longrightarrow> triggerPill s = s)
   \<and> (pillSound s = None \<longrightarrow> triggerPill s = s)
   \<and> backgroundMusic (triggerPill s) = backgroundMusic s"
proof -
  have ok: "pillSound_ok (audio (run (startup w) es))"
    by (rule pillSound_ok_run) (rule pillSound_ok_startup)
  then obtain a where a: "pillSound (audio (run (startup w) es)) = Some a"
    and snd: "if isPlaying a then sounding a = [(started a - 1, 0)] else sounding a = []"
    by (auto simp: pillSound_ok_def split: option.splits if_splits)
  have len: "length (sounding a) \<le> 1"
    using snd by (simp split: if_splits)
  have loaded: "buffer a \<noteq> None \<longrightarrow>
           (\<exists>a'. pillSound (triggerPill (audio (run (startup w) es))) = Some a'
              \<and> isPlaying a' \<and> sounding a' = [(started a, 0)]
              \<and> started a' = Suc (started a)
              \<and> set (sounding a') \<inter> set (sounding a) = {}
              \<and> buffer a' = buffer a)"
  proof
    assume "buffer a \<noteq> None"
    from triggerPill_restarts [OF ok a this]
    obtain a' where "pillSound (triggerPill (audio (run (startup w) es))) = Some a'"
      "isPlaying a'" "sounding a' = [(started a, 0)]" "started a' = Suc (started a)"
      "set (sounding a') \<inter> set (sounding a) = {}" "buffer a' = buffer a"
      by blast
    then show "\<exists>a'. pillSound (triggerPill (audio (run (startup w) es))) = Some a'
              \<and> isPlaying a' \<and> sounding a' = [(started a, 0)]
              \<and> started a' = Suc (started a)
              \<and> set (sounding a') \<inter> set (sounding a) = {}
              \<and> buffer a' = buffer a"
      by (intro exI [of _ a'] conjI)
  qed
  have unloaded: "buffer a = None \<longrightarrow>
           triggerPill (audio (run (startup w) es)) = audio (run (startup w) es)"
    by (simp add: triggerPill_unloaded [OF a])
  have first: "\<exists>a. pillSound (audio (run (startup w) es)) = Some a \<and> length (sounding a) \<le> 1
      \<and> (buffer a \<noteq> None \<longrightarrow>
           (\<exists>a'. pillSound (triggerPill (audio (run (startup w) es))) = Some a'
              \<and> isPlaying a' \<and> sounding a' = [(started a, 0)]
              \<and> started a' = Suc (started a)
              \<and> set (sounding a') \<inter> set (sounding a) = {}
              \<and> buffer a' = buffer a))
      \<and> (buffer a = None \<longrightarrow>
           triggerPill (audio (run (startup w) es)) = audio (run (startup w) es))"
    using a len loaded unloaded by (intro exI [of _ a] conjI)
  have stops: "\<forall>a. pillSound s = Some a \<and> buffer a \<noteq> None \<and> isPlaying a \<longrightarrow>
         pillSound (triggerPill s) = Some (play (stop a))
         \<and> \<not> isPlaying (stop a) \<and> sounding (stop a) = tl (sounding a)
         \<and> progress (stop a) = 0"
    using triggerPill_stops [of s] by blast
  have second: "\<forall>a. pillSound s = Some a \<and> buffer a = None \<longrightarrow> triggerPill s = s"
    by (simp add: triggerPill_unloaded)
  have third: "pillSound s = None \<longrightarrow> triggerPill s = s"
    by (simp add: triggerPill_unset)
  from first stops second third triggerPill_music [of s] show ?thesis
    by (intro conjI)
qed

text \<open>
  The pill sound is loaded, the key is pressed, a frame passes: the sound is playing
  its first node. A second call then leaves the second node as the only playback.
\<close>

theorem triggerPill_restarts_without_overlap_witness:
  "pillSound (audio (run (startup smallWorld)
        [PillLoaded 3, KeyDown ''KeyE'', Frame 0 (Vector3 0 10 20)]))
     = Some \<lparr>buffer = Some 3, isPlaying = True, loop = False, volume = 0.8, progress = 0,
             started = 1, sounding = [(0, 0)]\<rparr>
   \<and> (\<exists>a'. pillSound (triggerPill (audio (run (startup smallWorld)
        [PillLoaded 3, KeyDown ''KeyE'', Frame 0 (Vector3 0 10 20)]))) = Some a'
      \<and> isPlaying a' \<and> sounding a' = [(1, 0)] \<and> started a' = 2)
   \<and> triggerPill (audio (run (startup smallWorld) [Frame 0 (Vector3 0 10 20)]))
       = audio (run (startup smallWorld) [Frame 0 (Vector3 0 10 20)])
   \<and> triggerPill audioUnset = audioUnset"
proof -
  let ?R = "audio (run (startup smallWorld)
        [PillLoaded 3, KeyDown ''KeyE'', Frame 0 (Vector3 0 10 20)])"
  let ?Q = "audio (run (startup smallWorld) [Frame 0 (Vector3 0 10 20)])"
  have s0: "audio (startup smallWorld) = setupAudio audioUnset"
    by (simp add: startup_def Let_def split: prod.splits)
  have p1: "pillSound ?R
      = Some \<lparr>buffer = Some 3, isPlaying = True, loop = False, volume = 0.8, progress = 0,
              started = 1, sounding = [(0, 0)]\<rparr>"
    by (simp add: run_def s0 animate_def keydown_def Let_def setupAudio_def audioUnset_def
        newAudio_def pillLoaded_def setVolume_def setBuffer_def triggerPill_def play_def
        updateAudio_def)
  have p2: "pillSound ?Q = Some newAudio"
    by (simp add: run_def s0 animate_def Let_def setupAudio_def audioUnset_def updateAudio_def)
  have p3: "pillSound audioUnset = None"
    by (simp add: audioUnset_def)
  have "\<exists>a. pillSound ?R = Some a \<and> length (sounding a) \<le> 1
      \<and> (buffer a \<noteq> None \<longrightarrow>
           (\<exists>a'. pillSound (triggerPill ?R) = Some a'
              \<and> isPlaying a' \<and> sounding a' = [(started a, 0)]
              \<and> started a' = Suc (started a)
              \<and> set (sounding a') \<inter> set (sounding a) = {}
              \<and> buffer a' = buffer a))
      \<and> (buffer a = None \<longrightarrow> triggerPill ?R = ?R)"
    using triggerPill_restarts_without_overlap
      [of smallWorld "[PillLoaded 3, KeyDown ''KeyE'', Frame 0 (Vector3 0 10 20)]" audioUnset]
    by (rule conjunct1)
  then obtain a where H: "pillSound ?R = Some a \<and> length (sounding a) \<le> 1
      \<and> (buffer a \<noteq> None \<longrightarrow>
           (\<exists>a'. pillSound (triggerPill ?R) = Some a'
              \<and> isPlaying a' \<and> sounding a' = [(started a, 0)]
              \<and> started a' = Suc (started a)
              \<and> set (sounding a') \<inter> set (sounding a) = {}
              \<and> buffer a' = buffer a))
      \<and> (buffer a = None \<longrightarrow> triggerPill ?R = ?R)" ..
  from H have "pillSound ?R = Some a" by (rule conjunct1)
  with p1 have av: "a = \<lparr>buffer = Some 3, isPlaying = True, loop = False, volume = 0.8,
      progress = 0, started = 1, sounding = [(0, 0)]\<rparr>"
    by simp
  have ba: "buffer a \<noteq> None" and st: "started a = 1"
    by (simp_all add: av)
  from H have "buffer a \<noteq> None \<longrightarrow>
           (\<exists>a'. pillSound (triggerPill ?R) = Some a'
              \<and> isPlaying a' \<and> sounding a' = [(started a, 0)]
              \<and> started a' = Suc (started a)
              \<and> set (sounding a') \<inter> set (sounding a) = {}
              \<and> buffer a' = buffer a)"
    by (rule conjunct1 [OF conjunct2 [OF conjunct2]])
  with ba have "\<exists>a'. pillSound (triggerPill ?R) = Some a'
              \<and> isPlaying a' \<and> sounding a' = [(started a, 0)]
              \<and> started a' = Suc (started a)
              \<and> set (sounding a') \<inter> set (sounding a) = {}
              \<and> buffer a' = buffer a"
    by (rule rev_mp)
  then obtain a' where K: "pillSound (triggerPill ?R) = Some a'
              \<and> isPlaying a' \<and> sounding a' = [(started a, 0)]
              \<and> started a' = Suc (started a)
              \<and> set (sounding a') \<inter> set (sounding a) = {}
              \<and> buffer a' = buffer a" ..
  then have "pillSound (triggerPill ?R) = Some a'
      \<and> isPlaying a' \<and> sounding a' = [(1, 0)] \<and> started a' = 2"
    by (simp add: st)
  then have one: "\<exists>a'. pillSound (triggerPill ?R) = Some a'
      \<and> isPlaying a' \<and> sounding a' = [(1, 0)] \<and> started a' = 2" ..
  have "\<exists>b. pillSound ?Q = Some b \<and> length (sounding b) \<le> 1
      \<and> (buffer b \<noteq> None \<longrightarrow>
           (\<exists>a'. pillSound (triggerPill ?Q) = Some a'
              \<and> isPlaying a' \<and> sounding a' = [(started b, 0)]
              \<and> started a' = Suc (started b)
              \<and> set (sounding a') \<inter> set (sounding b) = {}
              \<and> buffer a' = buffer b))
      \<and> (buffer b = None \<longrightarrow> triggerPill ?Q = ?Q)"
    using triggerPill_restarts_without_overlap
      [of smallWorld "[Frame 0 (Vector3 0 10 20)]" audioUnset]
    by (rule conjunct1)
  then obtain b where G: "pillSound ?Q = Some b \<and> length (sounding b) \<le> 1
      \<and> (buffer b \<noteq> None \<longrightarrow>
           (\<exists>a'. pillSound (triggerPill ?Q) = Some a'
              \<and> isPlaying a' \<and> sounding a' = [(started b, 0)]
              \<and> started a' = Suc (started b)
              \<and> set (sounding a') \<inter> set (sounding b) = {}
              \<and> buffer a' = buffer b))
      \<and> (buffer b = None \<longrightarrow> triggerPill ?Q = ?Q)" ..
  from G have "pillSound ?Q = Some b" by (rule conjunct1)
  with p2 have "buffer b = None" by (simp add: newAudio_def)
  moreover from G have "buffer b = None \<longrightarrow> triggerPill ?Q = ?Q"
    by (rule conjunct2 [OF conjunct2 [OF conjunct2]])
  ultimately have two: "triggerPill ?Q = ?Q" by (rule rev_mp)
  have "pillSound audioUnset = None \<longrightarrow> triggerPill audioUnset = audioUnset"
    using triggerPill_restarts_without_overlap [of smallWorld "[]" audioUnset]
    by (rule conjunct1 [OF conjunct2 [OF conjunct2 [OF conjunct2]]])
  with p3 have three: "triggerPill audioUnset = audioUnset" by (rule rev_mp)
  from p1 one two three show ?thesis by (intro conjI)
qed

section \<open>The effects module\<close>

lemma setupEffects_result:
  "setupEffects s =
     (\<lparr>passes = [length (heap s), length (heap s) + 1, length (heap s) + 2,
                 length (heap s) + 3, length (heap s) + 4]\<rparr>,
      s\<lparr>heap := heap s @
           [ORender \<lparr>renderToScreen = False\<rparr>,
            OBloom \<lparr>renderToScreen = False, strength = 1.2, radius = 0.5, threshold = 0.1\<rparr>,
            ORGBShift \<lparr>renderToScreen = False, amount = 0.0025, angle = 0\<rparr>,
            OFilm \<lparr>renderToScreen = False, nIntensity = 0.35, sIntensity = 0.5,
                   sCount = 2048, grayscale = False\<rparr>,
            OVignette \<lparr>renderToScreen = True, offset = 0.8, darkness = 1.2\<rparr>],
        bloomPass := Some (length (heap s) + 1),
        rgbShiftPass := Some (length (heap s) + 2),
        filmPass := Some (length (heap s) + 3),
        vignettePass := Some (length (heap s) + 4)\<rparr>)"
  by (simp add: setupEffects_def alloc_def addPass_def updBloom_def updRGBShift_def
      updFilm_def updVignette_def nth_append Let_def)

lemma length_upd [simp]:
  "length (updBloom a f h) = length h"
  "length (updRGBShift a g h) = length h"
  "length (updFilm a k h) = length h"
  "length (updVignette a v h) = length h"
  by (simp_all add: updBloom_def updRGBShift_def updFilm_def updVignette_def
      split: pass_obj.splits)

lemma nth_upd_other:
  "b \<noteq> a \<Longrightarrow> updBloom a f h ! b = h ! b"
  "b \<noteq> a \<Longrightarrow> updRGBShift a g h ! b = h ! b"
  "b \<noteq> a \<Longrightarrow> updFilm a k h ! b = h ! b"
  "b \<noteq> a \<Longrightarrow> updVignette a v h ! b = h ! b"
  by (simp_all add: updBloom_def updRGBShift_def updFilm_def updVignette_def
      split: pass_obj.splits)

lemma nth_upd:
  "updBloom a f h ! b =
     (if b = a \<and> a < length h then (case h ! a of OBloom p \<Rightarrow> OBloom (f p) | x \<Rightarrow> x)
      else h ! b)"
  "updRGBShift a g h ! b =
     (if b = a \<and> a < length h then (case h ! a of ORGBShift p \<Rightarrow> ORGBShift (g p) | x \<Rightarrow> x)
      else h ! b)"
  "updFilm a k h ! b =
     (if b = a \<and> a < length h then (case h ! a of OFilm p \<Rightarrow> OFilm (k p) | x \<Rightarrow> x)
      else h ! b)"
  "updVignette a v h ! b =
     (if b = a \<and> a < length h then (case h ! a of OVignette p \<Rightarrow> OVignette (v p) | x \<Rightarrow> x)
      else h ! b)"
  by (simp_all add: updBloom_def updRGBShift_def updFilm_def updVignette_def
      split: pass_obj.splits)

lemma class_of_upd:
  "class_of (updBloom a f h ! b) = class_of (h ! b)"
  "class_of (updRGBShift a g h ! b) = class_of (h ! b)"
  "class_of (updFilm a k h ! b) = class_of (h ! b)"
  "class_of (updVignette a v h ! b) = class_of (h ! b)"
  by (cases "h ! a"; simp add: nth_upd)+

lemma getBloom_upd:
  "getBloom (updBloom a f h) b = (if b = a then map_option f (getBloom h a) else getBloom h b)"
  "getBloom (updRGBShift a g h) b = getBloom h b"
  "getBloom (updFilm a k h) b = getBloom h b"
  "getBloom (updVignette a v h) b = getBloom h b"
  by (cases "h ! a"; simp add: getBloom_def nth_upd)+

lemma getRGBShift_upd:
  "getRGBShift (updBloom a f h) b = getRGBShift h b"
  "getRGBShift (updRGBShift a g h) b =
     (if b = a then map_option g (getRGBShift h a) else getRGBShift h b)"
  "getRGBShift (updFilm a k h) b = getRGBShift h b"
  "getRGBShift (updVignette a v h) b = getRGBShift h b"
  by (cases "h ! a"; simp add: getRGBShift_def nth_upd)+

lemma getFilm_upd:
  "getFilm (updBloom a f h) b = getFilm h b"
  "getFilm (updRGBShift a g h) b = getFilm h b"
  "getFilm (updFilm a k h) b = (if b = a then map_option k (getFilm h a) else getFilm h b)"
  "getFilm (updVignette a v h) b = getFilm h b"
  by (cases "h ! a"; simp add: getFilm_def nth_upd)+

lemma getVignette_upd:
  "getVignette (updBloom a f h) b = getVignette h b"
  "getVignette (updRGBShift a g h) b = getVignette h b"
  "getVignette (updFilm a k h) b = getVignette h b"
  "getVignette (updVignette a v h) b =
     (if b = a then map_option v (getVignette h a) else getVignette h b)"
  by (cases "h ! a"; simp add: getVignette_def nth_upd)+

lemma updateEffects_variables:
  "bloomPass (updateEffects i s) = bloomPass s
   \<and> rgbShiftPass (updateEffects i s) = rgbShiftPass s
   \<and> filmPass (updateEffects i s) = filmPass s
   \<and> vignettePass (updateEffects i s) = vignettePass s
   \<and> effects_state.more (updateEffects i s) = effects_state.more s"
  by (simp add: updateEffects_def Let_def)

lemma updateEffects_length: "length (heap (updateEffects i s)) = length (heap s)"
  by (simp add: updateEffects_def Let_def split: option.splits)

lemma updateEffects_class:
  "class_of (heap (updateEffects i s) ! b) = class_of (heap s ! b)"
  by (simp add: updateEffects_def Let_def class_of_upd split: option.splits)

lemma updateEffects_theBloom:
  "theBloom (updateEffects i s) =
     map_option (\<lambda>p. p\<lparr>strength := 0.8 + i * 2.0, radius := 0.3 + i * 0.7\<rparr>) (theBloom s)"
  by (simp add: theBloom_def updateEffects_def Let_def getBloom_upd option.map_comp comp_def
      split: option.splits)

lemma updateEffects_theRGBShift:
  "theRGBShift (updateEffects i s) =
     map_option (\<lambda>p. p\<lparr>amount := 0.001 + i * 0.012\<rparr>) (theRGBShift s)"
  by (simp add: theRGBShift_def updateEffects_def Let_def getRGBShift_upd split: option.splits)

lemma updateEffects_theFilm:
  "theFilm (updateEffects i s) =
     map_option (\<lambda>p. p\<lparr>nIntensity := 0.2 + i * 0.8, sIntensity := 0.3 + i * 0.7\<rparr>) (theFilm s)"
  by (simp add: theFilm_def updateEffects_def Let_def getFilm_upd option.map_comp comp_def
      split: option.splits)

lemma updateEffects_theVignette:
  "theVignette (updateEffects i s) =
     map_option (\<lambda>p. p\<lparr>offset := 0.9 - i * 0.4, darkness := 1.0 + i * 0.8\<rparr>) (theVignette s)"
  by (simp add: theVignette_def updateEffects_def Let_def getVignette_upd option.map_comp
      comp_def split: option.splits)

lemma updateEffects_readParams:
  "effects_ready s \<Longrightarrow>
     readParams (updateEffects i s) =
       Some \<lparr>bloomStrength = 0.8 + i * 2.0, bloomRadius = 0.3 + i * 0.7,
             shiftAmount = 0.001 + i * 0.012, grainIntensity = 0.2 + i * 0.8,
             scanlineIntensity = 0.3 + i * 0.7, vignetteOffset = 0.9 - i * 0.4,
             vignetteDarkness = 1.0 + i * 0.8\<rparr>"
  by (auto simp: effects_ready_def readParams_def updateEffects_theBloom
      updateEffects_theRGBShift updateEffects_theFilm updateEffects_theVignette)

lemma updateEffects_ready: "effects_ready (updateEffects i s) = effects_ready s"
  by (simp add: effects_ready_def updateEffects_theBloom
      updateEffects_theRGBShift updateEffects_theFilm updateEffects_theVignette)

lemma setupEffects_ready: "effects_ready (snd (setupEffects s))"
  by (simp add: setupEffects_result effects_ready_def theBloom_def theRGBShift_def
      theFilm_def theVignette_def getBloom_def getRGBShift_def getFilm_def getVignette_def
      nth_append)

text \<open>
  C8. \<^verbatim>\<open>setupEffects\<close> gives the composer five passes in this order: the render pass,
  the bloom pass, the RGB shift pass, the film pass, the vignette pass. They are five
  different objects, the module's four variables refer to the last four, and the
  vignette pass is the only one of them that renders to the screen. The program's
  composer is the one \<^verbatim>\<open>setupEffects\<close> returned.
\<close>

theorem setupEffects_chain_order:
  "map (\<lambda>a. class_of (heap (snd (setupEffects s)) ! a)) (passes (fst (setupEffects s)))
     = [RenderPass, UnrealBloomPass, RGBShiftShaderPass, FilmPass, VignetteShaderPass]
   \<and> map (\<lambda>a. pass_renderToScreen (heap (snd (setupEffects s)) ! a))
         (passes (fst (setupEffects s)))
     = [False, False, False, False, True]
   \<and> distinct (passes (fst (setupEffects s)))
   \<and> bloomPass (snd (setupEffects s)) = Some (passes (fst (setupEffects s)) ! 1)
   \<and> rgbShiftPass (snd (setupEffects s)) = Some (passes (fst (setupEffects s)) ! 2)
   \<and> filmPass (snd (setupEffects s)) = Some (passes (fst (setupEffects s)) ! 3)
   \<and> vignettePass (snd (setupEffects s)) = Some (passes (fst (setupEffects s)) ! 4)
   \<and> composer (startup w) = fst (setupEffects effectsUnset)
   \<and> effects (startup w) = snd (setupEffects effectsUnset)"
proof -
  have "map (\<lambda>a. class_of (heap (snd (setupEffects s)) ! a)) (passes (fst (setupEffects s)))
     = [RenderPass, UnrealBloomPass, RGBShiftShaderPass, FilmPass, VignetteShaderPass]"
    by (simp add: setupEffects_result nth_append)
  moreover have "map (\<lambda>a. pass_renderToScreen (heap (snd (setupEffects s)) ! a))
         (passes (fst (setupEffects s)))
     = [False, False, False, False, True]"
    by (simp add: setupEffects_result nth_append)
  moreover have "distinct (passes (fst (setupEffects s)))"
    by (simp add: setupEffects_result)
  moreover have "bloomPass (snd (setupEffects s)) = Some (passes (fst (setupEffects s)) ! 1)
   \<and> rgbShiftPass (snd (setupEffects s)) = Some (passes (fst (setupEffects s)) ! 2)
   \<and> filmPass (snd (setupEffects s)) = Some (passes (fst (setupEffects s)) ! 3)
   \<and> vignettePass (snd (setupEffects s)) = Some (passes (fst (setupEffects s)) ! 4)"
    by (simp add: setupEffects_result)
  moreover have "composer (startup w) = fst (setupEffects effectsUnset)
   \<and> effects (startup w) = snd (setupEffects effectsUnset)"
    by (simp add: startup_def Let_def split: prod.splits)
  ultimately show ?thesis by blast
qed

text \<open>
  C4. For every intensity, \<^verbatim>\<open>updateEffects\<close> writes the strength and the radius of
  the bloom pass, the amount of the RGB shift pass, the noise and the scanline intensity
  of the film pass and the offset and the darkness of the vignette pass, and nothing
  else: every other field of these passes, the module's variables, and the number and
  the classes of the objects in the store stay as they are; a pass whose variable is
  unset is skipped. After \<^verbatim>\<open>setupEffects\<close> all four passes are there, and then the
  seven values are 0.8 + 2.0 i, 0.3 + 0.7 i, 0.001 + 0.012 i, 0.2 + 0.8 i, 0.3 + 0.7 i,
  0.9 - 0.4 i and 1.0 + 0.8 i: functions of the intensity alone, none of them decreasing
  in it except the vignette offset, which does not increase; the bloom strength goes
  from 0.8 at 0 to 2.8 at 1 and the vignette offset from 0.9 to 0.5.
\<close>

theorem updateEffects_affine_parameters:
  "theBloom (updateEffects i s) =
     map_option (\<lambda>p. p\<lparr>strength := 0.8 + i * 2.0, radius := 0.3 + i * 0.7\<rparr>) (theBloom s)
   \<and> theRGBShift (updateEffects i s) =
     map_option (\<lambda>p. p\<lparr>amount := 0.001 + i * 0.012\<rparr>) (theRGBShift s)
   \<and> theFilm (updateEffects i s) =
     map_option (\<lambda>p. p\<lparr>nIntensity := 0.2 + i * 0.8, sIntensity := 0.3 + i * 0.7\<rparr>) (theFilm s)
   \<and> theVignette (updateEffects i s) =
     map_option (\<lambda>p. p\<lparr>offset := 0.9 - i * 0.4, darkness := 1.0 + i * 0.8\<rparr>) (theVignette s)
   \<and> bloomPass (updateEffects i s) = bloomPass s
   \<and> rgbShiftPass (updateEffects i s) = rgbShiftPass s
   \<and> filmPass (updateEffects i s) = filmPass s
   \<and> vignettePass (updateEffects i s) = vignettePass s
   \<and> map class_of (heap (updateEffects i s)) = map class_of (heap s)
   \<and> effects_ready (snd (setupEffects s0))
   \<and> effects_ready (updateEffects i s) = effects_ready s
   \<and> (effects_ready s \<longrightarrow>
        readParams (updateEffects i s) =
          Some \<lparr>bloomStrength = 0.8 + i * 2.0, bloomRadius = 0.3 + i * 0.7,
                shiftAmount = 0.001 + i * 0.012, grainIntensity = 0.2 + i * 0.8,
                scanlineIntensity = 0.3 + i * 0.7, vignetteOffset = 0.9 - i * 0.4,
                vignetteDarkness = 1.0 + i * 0.8\<rparr>)
   \<and> (effects_ready s \<and> i \<le> j \<longrightarrow>
        (\<exists>p q. readParams (updateEffects i s) = Some p
           \<and> readParams (updateEffects j s) = Some q
           \<and> bloomStrength p \<le> bloomStrength q \<and> bloomRadius p \<le> bloomRadius q
           \<and> shiftAmount p \<le> shiftAmount q \<and> grainIntensity p \<le> grainIntensity q
           \<and> scanlineIntensity p \<le> scanlineIntensity q
           \<and> vignetteOffset q \<le> vignetteOffset p
           \<and> vignetteDarkness p \<le> vignetteDarkness q))
   \<and> (effects_ready s \<longrightarrow>
        map_option bloomStrength (readParams (updateEffects 0 s)) = Some 0.8
        \<and> map_option bloomStrength (readParams (updateEffects 1 s)) = Some 2.8
        \<and> map_option vignetteOffset (readParams (updateEffects 0 s)) = Some 0.9
        \<and> map_option vignetteOffset (readParams (updateEffects 1 s)) = Some 0.5)"
proof -
  have cls: "map class_of (heap (updateEffects i s)) = map class_of (heap s)"
    by (rule nth_equalityI) (simp_all add: updateEffects_length updateEffects_class)
  have mono: "effects_ready s \<and> i \<le> j \<longrightarrow>
        (\<exists>p q. readParams (updateEffects i s) = Some p
           \<and> readParams (updateEffects j s) = Some q
           \<and> bloomStrength p \<le> bloomStrength q \<and> bloomRadius p \<le> bloomRadius q
           \<and> shiftAmount p \<le> shiftAmount q \<and> grainIntensity p \<le> grainIntensity q
           \<and> scanlineIntensity p \<le> scanlineIntensity q
           \<and> vignetteOffset q \<le> vignetteOffset p
           \<and> vignetteDarkness p \<le> vignetteDarkness q)"
    by (simp add: updateEffects_readParams)
  have ends: "effects_ready s \<longrightarrow>
        map_option bloomStrength (readParams (updateEffects 0 s)) = Some 0.8
        \<and> map_option bloomStrength (readParams (updateEffects 1 s)) = Some 2.8
        \<and> map_option vignetteOffset (readParams (updateEffects 0 s)) = Some 0.9
        \<and> map_option vignetteOffset (readParams (updateEffects 1 s)) = Some 0.5"
    by (simp add: updateEffects_readParams)
  from cls mono ends show ?thesis
    using updateEffects_theBloom [of i s] updateEffects_theRGBShift [of i s]
      updateEffects_theFilm [of i s] updateEffects_theVignette [of i s]
      updateEffects_variables [of i s] setupEffects_ready [of s0]
      updateEffects_ready [of i s] updateEffects_readParams [of s i]
    by (intro conjI) simp_all
qed

theorem updateEffects_affine_parameters_witness:
  "readParams (updateEffects 0.5 (effects (startup smallWorld)))
     = Some \<lparr>bloomStrength = 1.8, bloomRadius = 0.65, shiftAmount = 0.007,
             grainIntensity = 0.6, scanlineIntensity = 0.65, vignetteOffset = 0.7,
             vignetteDarkness = 1.4\<rparr>
   \<and> (\<exists>p q. readParams (updateEffects 0.25 (effects (startup smallWorld))) = Some p
         \<and> readParams (updateEffects 0.75 (effects (startup smallWorld))) = Some q
         \<and> bloomStrength p \<le> bloomStrength q \<and> vignetteOffset q \<le> vignetteOffset p)
   \<and> map_option bloomStrength (readParams (updateEffects 1 (effects (startup smallWorld))))
       = Some 2.8
   \<and> map_option vignetteOffset (readParams (updateEffects 1 (effects (startup smallWorld))))
       = Some 0.5"
proof -
  have eq: "effects (startup smallWorld) = snd (setupEffects effectsUnset)"
    by (simp add: startup_def Let_def split: prod.splits)
  have ready: "effects_ready (effects (startup smallWorld))"
    using updateEffects_affine_parameters [of 0 "effects (startup smallWorld)" effectsUnset 0]
    by (simp only: eq)
  from updateEffects_affine_parameters
    [of "0.5" "effects (startup smallWorld)" effectsUnset "0.5"] ready
  have one: "readParams (updateEffects 0.5 (effects (startup smallWorld)))
     = Some \<lparr>bloomStrength = 0.8 + 0.5 * 2.0, bloomRadius = 0.3 + 0.5 * 0.7,
             shiftAmount = 0.001 + 0.5 * 0.012, grainIntensity = 0.2 + 0.5 * 0.8,
             scanlineIntensity = 0.3 + 0.5 * 0.7, vignetteOffset = 0.9 - 0.5 * 0.4,
             vignetteDarkness = 1.0 + 0.5 * 0.8\<rparr>"
    by blast
  have le: "(0.25::real) \<le> 0.75" by simp
  from updateEffects_affine_parameters
    [of "0.25" "effects (startup smallWorld)" effectsUnset "0.75"] ready le
  have two: "\<exists>p q. readParams (updateEffects 0.25 (effects (startup smallWorld))) = Some p
         \<and> readParams (updateEffects 0.75 (effects (startup smallWorld))) = Some q
         \<and> bloomStrength p \<le> bloomStrength q \<and> vignetteOffset q \<le> vignetteOffset p"
    by blast
  from updateEffects_affine_parameters
    [of 1 "effects (startup smallWorld)" effectsUnset 1] ready
  have three: "map_option bloomStrength
        (readParams (updateEffects 1 (effects (startup smallWorld)))) = Some 2.8
      \<and> map_option vignetteOffset
        (readParams (updateEffects 1 (effects (startup smallWorld)))) = Some 0.5"
    by blast
  from one two three show ?thesis by simp
qed

end
